theory Spec2Isabelle
  imports Main
begin

section \<open>Data model of the system manager\<close>

text \<open>
  Modelled from the spec: the header SystemManagerCommon.hpp is not among the sources, so
  the enumeration of lifecycle states is the one of the specification (section 3), which is
  also the set of enumerators the source file names.
\<close>

datatype State = Running | Shutdown | ShutdownReady | Reboot | RebootToUpdate

text \<open>
  Modelled from the spec: the close reasons of section 3. The source file itself uses
  \<open>RegularPowerDown\<close>, \<open>LowBattery\<close>, \<open>SystemBrownout\<close> and \<open>Reboot\<close>.
\<close>

datatype CloseReason =
  RegularPowerDown | LowBattery | SystemBrownout | CloseReasonReboot
  | CloseReasonUpdate | CloseReasonRestore

text \<open>The command codes switched on by the \<open>SystemManagerCmd\<close> handler.\<close>

datatype Code = CloseSystem | Update | Restore | CodeReboot | CodeRebootToUpdate | CodeNone

text \<open>
  Return codes of bus requests and of service handlers. The source only ever compares
  against \<open>Success\<close>.
\<close>

datatype ReturnCodes = Success | Failure | Timeout | ServiceDoesntExist | Unresolved

text \<open>The shared battery store \<open>Store::Battery\<close>: the source reads two of its fields.\<close>

datatype LevelState = LevelNormal | LevelShutdown | LevelCriticalCharging | LevelCriticalNotCharging

datatype BatteryState = Discharging | Charging | ChargingDone | PluggedNotCharging

record Battery =
  levelState :: LevelState
  batteryState :: BatteryState

datatype PhoneMode = Connected | DoNotDisturb | Offline

datatype Tethering = TetheringOff | TetheringOn

datatype PowerState = PowerOff | PowerOn

datatype StartupType = Regular | StartupLowBattery | StartupLowBatteryCharging

datatype Action = Increase | Decrease

datatype BusChannel = SystemManagerRequests | OtherChannel

type_synonym UpdateReason = nat

text \<open>The three timers owned by the system manager.\<close>

datatype TimerId = LowBatteryShutdownDelayTimer | ServicesPreShutdownRoutineTimer | CpuStatisticsTimerId

text \<open>Messages the system manager sends with \<open>bus.sendUnicast\<close>.\<close>

datatype OutMessage =
  ServiceCloseReasonMessage CloseReason
  | CriticalBatteryLevelNotification bool "bool option"
  | TetheringPhoneModeChangeProhibitedMessage
  | TetheringQuestionRequest
  | TetheringQuestionAbort
  | RequestPhoneModeForceUpdate
  | StartAllowedMessage StartupType

text \<open>The log lines of the source, one constructor per call site that is modelled.\<close>

datatype LogLine =
  LogStateChange State State
  | LogInvokingClosingProcedure
  | LogDidNotReportBeforeTimeout string
  | LogReadyToClose string
  | LogAllServicesReady
  | LogDelayClosing string
  | LogDidNotRespondToKill string
  | LogServiceToCloseDidNotRespond string
  | LogServiceNoticedFailureAtClose string
  | LogNoSuchServiceToDestroy string
  | LogNoSuchApplicationToDestroy string
  | LogDeinitHandler ReturnCodes
  | LogIgnoredMsgOnShutdown string
  | LogBatteryCritical
  | LogBatteryTooLow
  | LogBatteryNormal
  | LogBrownout
  | LogPhoneModeChangeRequested
  | LogPhoneModeChangeWhenTethering
  | LogTetheringStateChangeRequested
  | LogTetheringRefusedBatteryTooLow
  | LogDisablingTethering
  | LogEnteringRestore
  | LogEnteredRestore
  | LogStartingUpdate
  | LogReboot
  | LogShutdown
  | LogRebootToUpdater
  | LogFatalStateChanged State

text \<open>
  Everything the system manager does to the world outside its own fields, in the order in
  which the source does it.
\<close>

datatype Event =
  BusSendUnicast OutMessage string
  | BusSendUnicastSyncExit string
  | BusSendUnicastSyncStart string
  | ServiceStartService string
  | ServiceDeinitHandler string
  | ServiceCloseHandler string
  | TimerStart TimerId
  | TimerStop TimerId
  | TimerRestart TimerId
  | Log LogLine
  | CellularChangeModulePowerState PowerState
  | PowerManagerIncreaseCpuFrequency
  | PowerManagerDecreaseCpuFrequency
  | PowerManagerRegisterNewSentinel string
  | PowerManagerSetCpuFrequencyRequest string nat
  | PowerManagerResetCpuFrequencyRequest string
  | PowerManagerUpdateCpuFrequency
  | CpuStatisticsUpdate
  | DeviceManagerRegisterNewDevice string
  | CloseServiceSelf
  | EndScheduler
  | PowerManagerReboot
  | PowerManagerPowerOff
  | PowerManagerRebootToUpdate UpdateReason

text \<open>
  A registered service: its name and what its \<open>DeinitHandler\<close> returns when the system
  manager kills it.
\<close>

record Service =
  GetName :: string
  DeinitHandler :: ReturnCodes

text \<open>
  What the source takes from files that are not among the sources: the service name
  constants, the answers of the bus to the synchronous Start and Exit requests (the pair
  of \<open>ret.first\<close> and \<open>resp->retCode\<close>), and the three operations of the phone mode subject
  on its own state \<open>'p\<close>.
\<close>

record 'p Collaborators =
  service_desktop :: string
  evt_manager :: string
  gui :: string
  db :: string
  eink :: string
  appmgr :: string
  startAnswer :: "string \<Rightarrow> ReturnCodes \<times> ReturnCodes"
  exitAnswer :: "string \<Rightarrow> ReturnCodes \<times> ReturnCodes"
  isTetheringEnabled :: "'p \<Rightarrow> bool"
  setPhoneMode :: "PhoneMode \<Rightarrow> 'p \<Rightarrow> 'p"
  setTetheringMode :: "Tethering \<Rightarrow> 'p \<Rightarrow> bool \<times> 'p"

text \<open>
  The fields of \<open>SystemManagerCommon\<close> that the modelled functions read or write. A timer is
  its \<open>isActive()\<close> flag; \<open>battery\<close> is the value of the shared battery store as the running
  handler observes it; \<open>trace\<close> collects the events.
\<close>

record 'p SystemManagerCommon =
  state :: State
  servicesList :: "Service list"
  applicationsList :: "Service list"
  readyForCloseRegister :: "string list"
  lowBatteryShutdownDelay :: bool
  servicesPreShutdownRoutineTimeout :: bool
  cpuStatisticsTimer :: bool
  cpuStatisticsTimerInit :: bool
  updateReason :: UpdateReason
  phoneModeSubject :: 'p
  battery :: Battery
  trace :: "Event list"

text \<open>Messages that arrive in the mailbox.\<close>

datatype Payload =
  SystemManagerCmd Code CloseReason UpdateReason
  | BatteryStatusChangeMessage
  | BatteryStateChangeMessage
  | KbdMessage nat
  | BatteryBrownoutMessage
  | CellularCheckIfStartAllowedMessage
  | UserPowerDownRequest
  | ReadyToCloseMessage
  | CpuFrequencyMessage Action
  | DeviceRegistrationMessage string
  | SentinelRegistrationMessage string
  | HoldCpuFrequencyMessage string nat
  | ReleaseCpuFrequencyMessage string
  | PhoneModeRequest PhoneMode
  | TetheringStateRequest Tethering
  | CheckIfStartAllowedMessage
  | TetheringEnabledResponse
  | TimerMessage TimerId
  | OtherMessage

record Message =
  sender :: string
  channel :: BusChannel
  payload :: Payload

section \<open>Whitelists\<close>

definition update_whitelist :: "'p Collaborators \<Rightarrow> string list" where
  "update_whitelist c =
     [service_desktop c, evt_manager c, gui c, db c, eink c, appmgr c]"

definition restore_whitelist :: "'p Collaborators \<Rightarrow> string list" where
  "restore_whitelist c = [service_desktop c, evt_manager c, gui c, eink c, appmgr c]"

definition regularClose_whitelist :: "'p Collaborators \<Rightarrow> string list" where
  "regularClose_whitelist c = [evt_manager c]"

definition isOnWhitelist :: "string list \<Rightarrow> string \<Rightarrow> bool" where
  "isOnWhitelist list serviceName = (find (\<lambda>n. n = serviceName) list \<noteq> None)"

section \<open>Operations\<close>

definition emit :: "Event \<Rightarrow> 'p SystemManagerCommon \<Rightarrow> 'p SystemManagerCommon" where
  "emit e st = st\<lparr>trace := trace st @ [e]\<rparr>"

definition set_State :: "State \<Rightarrow> 'p SystemManagerCommon \<Rightarrow> 'p SystemManagerCommon" where
  "set_State s st = (emit (Log (LogStateChange (state st) s)) st)\<lparr>state := s\<rparr>"

text \<open>\<open>RunService\<close>: start the service's thread, then the synchronous Start request.\<close>

definition RunService ::
  "'p Collaborators \<Rightarrow> Service \<Rightarrow> 'p SystemManagerCommon \<Rightarrow> bool \<times> 'p SystemManagerCommon" where
  "RunService c service st =
     (let st1 = emit (ServiceStartService (GetName service)) st;
          st2 = emit (BusSendUnicastSyncStart (GetName service)) st1;
          ret = startAnswer c (GetName service)
      in (if fst ret = Success \<and> snd ret = Success then (True, st2) else (False, st2)))"

definition RunSystemService ::
  "'p Collaborators \<Rightarrow> Service \<Rightarrow> 'p SystemManagerCommon \<Rightarrow> bool \<times> 'p SystemManagerCommon" where
  "RunSystemService c service st =
     RunService c service (st\<lparr>servicesList := servicesList st @ [service]\<rparr>)"

definition RunApplication ::
  "'p Collaborators \<Rightarrow> Service \<Rightarrow> 'p SystemManagerCommon \<Rightarrow> bool \<times> 'p SystemManagerCommon" where
  "RunApplication c app st =
     RunService c app (st\<lparr>applicationsList := applicationsList st @ [app]\<rparr>)"

text \<open>
  The \<open>for_each\<close> of \<open>StartSystemServices\<close> over the sorted creators; the exception
  \<open>SystemInitialisationError\<close> is the left summand. The dependency sort itself is in files
  that are not among the sources, so the sorted list is the argument.
\<close>

datatype SystemInitialisationError = SystemStartupFailed

fun StartSystemServices ::
  "'p Collaborators \<Rightarrow> Service list \<Rightarrow> 'p SystemManagerCommon
    \<Rightarrow> SystemInitialisationError + 'p SystemManagerCommon" where
  "StartSystemServices c [] st = Inr st"
| "StartSystemServices c (service # sortedServices) st =
     (case RunSystemService c service st of
        (success, st1) \<Rightarrow>
          if \<not> success
          then Inl SystemStartupFailed
          else StartSystemServices c sortedServices st1)"

definition RequestServiceClose ::
  "'p Collaborators \<Rightarrow> string \<Rightarrow> 'p SystemManagerCommon \<Rightarrow> bool \<times> 'p SystemManagerCommon" where
  "RequestServiceClose c name st =
     (let st1 = emit (BusSendUnicastSyncExit name) st;
          ret = exitAnswer c name
      in if fst ret \<noteq> Success
         then (False, emit (Log (LogServiceToCloseDidNotRespond name)) st1)
         else if snd ret \<noteq> Success
         then (False, emit (Log (LogServiceNoticedFailureAtClose name)) st1)
         else (True, st1))"

definition kill :: "Service \<Rightarrow> 'p SystemManagerCommon \<Rightarrow> 'p SystemManagerCommon" where
  "kill toKill st =
     (let st1 = emit (ServiceDeinitHandler (GetName toKill)) st;
          ret = DeinitHandler toKill;
          st2 = (if ret \<noteq> Success then emit (Log (LogDeinitHandler ret)) st1 else st1)
      in emit (ServiceCloseHandler (GetName toKill)) st2)"

text \<open>
  The loop of \<open>DestroyServices\<close>. The iterator splits \<open>servicesList\<close> into the services
  already passed (all kept) and the services still ahead; erasing the current one writes
  the list without it.
\<close>

fun DestroyServices_loop ::
  "'p Collaborators \<Rightarrow> string list \<Rightarrow> Service list \<Rightarrow> Service list
    \<Rightarrow> 'p SystemManagerCommon \<Rightarrow> 'p SystemManagerCommon" where
  "DestroyServices_loop c whitelist passed [] st = st"
| "DestroyServices_loop c whitelist passed (service # ahead) st =
     (if isOnWhitelist whitelist (GetName service)
      then DestroyServices_loop c whitelist (passed @ [service]) ahead
             (emit (Log (LogDelayClosing (GetName service))) st)
      else (case RequestServiceClose c (GetName service) st of
              (closed, st1) \<Rightarrow>
                let st2 = (if \<not> closed
                           then kill service
                                  (emit (Log (LogDidNotRespondToKill (GetName service))) st1)
                           else st1)
                in DestroyServices_loop c whitelist passed ahead
                     (st2\<lparr>servicesList := passed @ ahead\<rparr>)))"

definition DestroyServices ::
  "'p Collaborators \<Rightarrow> string list \<Rightarrow> 'p SystemManagerCommon \<Rightarrow> 'p SystemManagerCommon" where
  "DestroyServices c whitelist st = DestroyServices_loop c whitelist [] (servicesList st) st"

text \<open>\<open>vector::erase\<close> at the iterator \<open>find_if\<close> returned: the first match goes.\<close>

fun erase_first :: "('a \<Rightarrow> bool) \<Rightarrow> 'a list \<Rightarrow> 'a list" where
  "erase_first P [] = []"
| "erase_first P (x # xs) = (if P x then xs else x # erase_first P xs)"

definition DestroySystemService ::
  "'p Collaborators \<Rightarrow> string \<Rightarrow> 'p SystemManagerCommon \<Rightarrow> bool \<times> 'p SystemManagerCommon" where
  "DestroySystemService c name st =
     (case RequestServiceClose c name st of
        (closed, st1) \<Rightarrow>
          if closed
          then (case find (\<lambda>s. GetName s = name) (servicesList st1) of
                  None \<Rightarrow> (False, emit (Log (LogNoSuchServiceToDestroy name)) st1)
                | Some service \<Rightarrow>
                    (True, st1\<lparr>servicesList :=
                                 erase_first (\<lambda>s. GetName s = name) (servicesList st1)\<rparr>))
          else (False, st1))"

definition DestroyApplication ::
  "'p Collaborators \<Rightarrow> string \<Rightarrow> 'p SystemManagerCommon \<Rightarrow> bool \<times> 'p SystemManagerCommon" where
  "DestroyApplication c name st =
     (case RequestServiceClose c name st of
        (closed, st1) \<Rightarrow>
          if closed
          then (case find (\<lambda>s. GetName s = name) (applicationsList st1) of
                  None \<Rightarrow> (False, emit (Log (LogNoSuchApplicationToDestroy name)) st1)
                | Some app \<Rightarrow>
                    (True, st1\<lparr>applicationsList :=
                                 erase_first (\<lambda>s. GetName s = name) (applicationsList st1)\<rparr>))
          else (False, st1))"

text \<open>The broadcast loop of \<open>preCloseRoutine\<close>, then the watchdog timer is created and started.\<close>

fun preCloseRoutine_loop ::
  "CloseReason \<Rightarrow> Service list \<Rightarrow> 'p SystemManagerCommon \<Rightarrow> 'p SystemManagerCommon" where
  "preCloseRoutine_loop closeReason [] st = st"
| "preCloseRoutine_loop closeReason (service # rest) st =
     preCloseRoutine_loop closeReason rest
       ((emit (BusSendUnicast (ServiceCloseReasonMessage closeReason) (GetName service)) st)
          \<lparr>readyForCloseRegister := readyForCloseRegister st @ [GetName service]\<rparr>)"

definition preCloseRoutine ::
  "CloseReason \<Rightarrow> 'p SystemManagerCommon \<Rightarrow> 'p SystemManagerCommon" where
  "preCloseRoutine closeReason st =
     (emit (TimerStart ServicesPreShutdownRoutineTimer)
        (preCloseRoutine_loop closeReason (servicesList st) st))
       \<lparr>servicesPreShutdownRoutineTimeout := True\<rparr>"

definition CloseSystemHandler ::
  "CloseReason \<Rightarrow> 'p SystemManagerCommon \<Rightarrow> 'p SystemManagerCommon" where
  "CloseSystemHandler closeReason st =
     (let st1 = emit (Log LogInvokingClosingProcedure) st;
          st2 = (emit (TimerStop LowBatteryShutdownDelayTimer) st1)
                  \<lparr>lowBatteryShutdownDelay := False\<rparr>;
          st3 = st2\<lparr>servicesList := rev (servicesList st2)\<rparr>
      in preCloseRoutine closeReason st3)"

fun CloseServices_log ::
  "string list \<Rightarrow> 'p SystemManagerCommon \<Rightarrow> 'p SystemManagerCommon" where
  "CloseServices_log [] st = st"
| "CloseServices_log (element # rest) st =
     CloseServices_log rest (emit (Log (LogDidNotReportBeforeTimeout element)) st)"

definition CloseServices ::
  "'p Collaborators \<Rightarrow> 'p SystemManagerCommon \<Rightarrow> 'p SystemManagerCommon" where
  "CloseServices c st =
     (let st1 = CloseServices_log (readyForCloseRegister st) st;
          st2 = st1\<lparr>readyForCloseRegister := []\<rparr>;
          st3 = DestroyServices c (regularClose_whitelist c) st2
      in set_State Shutdown st3)"

definition RestoreSystemHandler ::
  "'p Collaborators \<Rightarrow> 'p SystemManagerCommon \<Rightarrow> 'p SystemManagerCommon" where
  "RestoreSystemHandler c st =
     (let st1 = emit (Log LogEnteringRestore) st;
          st2 = st1\<lparr>servicesList := rev (servicesList st1)\<rparr>;
          st3 = DestroyServices c (restore_whitelist c) st2
      in emit (Log LogEnteredRestore) st3)"

definition UpdateSystemHandler ::
  "'p Collaborators \<Rightarrow> 'p SystemManagerCommon \<Rightarrow> 'p SystemManagerCommon" where
  "UpdateSystemHandler c st =
     (let st1 = emit (Log LogStartingUpdate) st;
          st2 = st1\<lparr>servicesList := rev (servicesList st1)\<rparr>
      in DestroyServices c (update_whitelist c) st2)"

definition RebootHandler ::
  "State \<Rightarrow> UpdateReason option \<Rightarrow> 'p SystemManagerCommon \<Rightarrow> 'p SystemManagerCommon" where
  "RebootHandler target reason st =
     (let st1 = CloseSystemHandler CloseReasonReboot st;
          st2 = set_State target st1
      in (case reason of
            None \<Rightarrow> st2
          | Some r \<Rightarrow> st2\<lparr>updateReason := r\<rparr>))"

definition readyToCloseHandler ::
  "'p Collaborators \<Rightarrow> Message \<Rightarrow> 'p SystemManagerCommon \<Rightarrow> 'p SystemManagerCommon" where
  "readyToCloseHandler c msg st =
     (if readyForCloseRegister st \<noteq> [] \<and> servicesPreShutdownRoutineTimeout st
      then (let st1 = emit (Log (LogReadyToClose (sender msg))) st;
                st2 = st1\<lparr>readyForCloseRegister :=
                            removeAll (sender msg) (readyForCloseRegister st1)\<rparr>
            in if readyForCloseRegister st2 = []
               then (let st3 = emit (Log LogAllServicesReady) st2;
                         st4 = (emit (TimerStop ServicesPreShutdownRoutineTimer) st3)
                                 \<lparr>servicesPreShutdownRoutineTimeout := False\<rparr>
                     in CloseServices c st4)
               else st2)
      else st)"

definition batteryCriticalLevelAction ::
  "'p Collaborators \<Rightarrow> bool \<Rightarrow> 'p SystemManagerCommon \<Rightarrow> 'p SystemManagerCommon" where
  "batteryCriticalLevelAction c charging st =
     (let st1 = emit (Log LogBatteryCritical) st;
          st2 = emit (CellularChangeModulePowerState PowerOff) st1
      in emit (BusSendUnicast (CriticalBatteryLevelNotification True (Some charging)) (appmgr c))
           st2)"

definition batteryShutdownLevelAction ::
  "'p SystemManagerCommon \<Rightarrow> 'p SystemManagerCommon" where
  "batteryShutdownLevelAction st =
     CloseSystemHandler LowBattery (emit (Log LogBatteryTooLow) st)"

definition batteryNormalLevelAction ::
  "'p Collaborators \<Rightarrow> 'p SystemManagerCommon \<Rightarrow> 'p SystemManagerCommon" where
  "batteryNormalLevelAction c st =
     (let st1 = emit (Log LogBatteryNormal) st;
          st2 = emit (CellularChangeModulePowerState PowerOn) st1
      in emit (BusSendUnicast (CriticalBatteryLevelNotification False None) (appmgr c)) st2)"

text \<open>The handler that \<open>postStartRoutine\<close> connects to \<open>BatteryStateChangeMessage\<close>.\<close>

definition BatteryStateChange_handler ::
  "'p Collaborators \<Rightarrow> 'p SystemManagerCommon \<Rightarrow> 'p SystemManagerCommon" where
  "BatteryStateChange_handler c st =
     (case levelState (battery st) of
        LevelNormal \<Rightarrow> batteryNormalLevelAction c st
      | LevelShutdown \<Rightarrow> batteryShutdownLevelAction st
      | LevelCriticalCharging \<Rightarrow> batteryCriticalLevelAction c True st
      | LevelCriticalNotCharging \<Rightarrow> batteryCriticalLevelAction c False st)"

text \<open>The handlers that \<open>InitHandler\<close> connects, in its order.\<close>

definition SystemManagerCmd_handler ::
  "'p Collaborators \<Rightarrow> Message \<Rightarrow> Code \<Rightarrow> CloseReason \<Rightarrow> UpdateReason
    \<Rightarrow> 'p SystemManagerCommon \<Rightarrow> 'p SystemManagerCommon" where
  "SystemManagerCmd_handler c msg type closeReason reason st =
     (if channel msg = SystemManagerRequests
      then (case type of
              CloseSystem \<Rightarrow> CloseSystemHandler closeReason st
            | Update \<Rightarrow> UpdateSystemHandler c st
            | Restore \<Rightarrow> RestoreSystemHandler c st
            | CodeReboot \<Rightarrow> RebootHandler Reboot None st
            | CodeRebootToUpdate \<Rightarrow> RebootHandler RebootToUpdate (Some reason) st
            | CodeNone \<Rightarrow> st)
      else st)"

definition BatteryStatusChange_handler ::
  "'p SystemManagerCommon \<Rightarrow> 'p SystemManagerCommon" where
  "BatteryStatusChange_handler st =
     (if state st = Shutdown \<and> batteryState (battery st) = Discharging
      then set_State ShutdownReady st
      else st)"

definition Kbd_handler :: "'p SystemManagerCommon \<Rightarrow> 'p SystemManagerCommon" where
  "Kbd_handler st = (if state st = Shutdown then set_State Reboot st else st)"

definition BatteryBrownout_handler ::
  "'p SystemManagerCommon \<Rightarrow> 'p SystemManagerCommon" where
  "BatteryBrownout_handler st = CloseSystemHandler SystemBrownout (emit (Log LogBrownout) st)"

definition CellularCheckIfStartAllowed_handler ::
  "'p SystemManagerCommon \<Rightarrow> 'p SystemManagerCommon" where
  "CellularCheckIfStartAllowed_handler st =
     (case levelState (battery st) of
        LevelNormal \<Rightarrow> emit (CellularChangeModulePowerState PowerOn) st
      | LevelCriticalCharging \<Rightarrow> emit (CellularChangeModulePowerState PowerOff) st
      | LevelCriticalNotCharging \<Rightarrow> emit (CellularChangeModulePowerState PowerOff) st
      | LevelShutdown \<Rightarrow> st)"

definition CpuFrequency_handler ::
  "Action \<Rightarrow> 'p SystemManagerCommon \<Rightarrow> 'p SystemManagerCommon" where
  "CpuFrequency_handler action st =
     (if action = Increase
      then (emit (TimerStart CpuStatisticsTimerId) (emit PowerManagerIncreaseCpuFrequency st))
             \<lparr>cpuStatisticsTimer := True\<rparr>
      else if action = Decrease
      then (emit (TimerStart CpuStatisticsTimerId) (emit PowerManagerDecreaseCpuFrequency st))
             \<lparr>cpuStatisticsTimer := True\<rparr>
      else st)"

definition handlePhoneModeRequest ::
  "'p Collaborators \<Rightarrow> PhoneMode \<Rightarrow> 'p SystemManagerCommon \<Rightarrow> 'p SystemManagerCommon" where
  "handlePhoneModeRequest c mode st =
     (let st1 = emit (Log LogPhoneModeChangeRequested) st
      in if isTetheringEnabled c (phoneModeSubject st1)
         then emit (BusSendUnicast TetheringPhoneModeChangeProhibitedMessage (appmgr c))
                (emit (Log LogPhoneModeChangeWhenTethering) st1)
         else st1\<lparr>phoneModeSubject := setPhoneMode c mode (phoneModeSubject st1)\<rparr>)"

definition handleTetheringStateRequest ::
  "'p Collaborators \<Rightarrow> Tethering \<Rightarrow> 'p SystemManagerCommon \<Rightarrow> 'p SystemManagerCommon" where
  "handleTetheringStateRequest c requestedState st =
     (let st1 = emit (Log LogTetheringStateChangeRequested) st
      in if levelState (battery st1) \<noteq> LevelNormal
         then emit (Log LogTetheringRefusedBatteryTooLow) st1
         else if requestedState = TetheringOn
         then emit (BusSendUnicast TetheringQuestionRequest (appmgr c)) st1
         else (case setTetheringMode c TetheringOff (phoneModeSubject st1) of
                 (tetheringChanged, subject) \<Rightarrow>
                   let st2 = st1\<lparr>phoneModeSubject := subject\<rparr>
                   in if \<not> tetheringChanged
                      then emit (BusSendUnicast TetheringQuestionAbort (appmgr c)) st2
                      else emit (BusSendUnicast RequestPhoneModeForceUpdate (evt_manager c))
                             (emit (Log LogDisablingTethering) st2)))"

definition CheckIfStartAllowed_handler ::
  "'p Collaborators \<Rightarrow> 'p SystemManagerCommon \<Rightarrow> 'p SystemManagerCommon" where
  "CheckIfStartAllowed_handler c st =
     (case levelState (battery st) of
        LevelNormal \<Rightarrow> emit (BusSendUnicast (StartAllowedMessage Regular) (appmgr c)) st
      | LevelShutdown \<Rightarrow>
          (let st1 = (if \<not> lowBatteryShutdownDelay st
                      then (emit (TimerStart LowBatteryShutdownDelayTimer) st)
                             \<lparr>lowBatteryShutdownDelay := True\<rparr>
                      else st)
           in emit (BusSendUnicast (StartAllowedMessage StartupLowBattery) (appmgr c)) st1)
      | LevelCriticalNotCharging \<Rightarrow>
          emit (BusSendUnicast (StartAllowedMessage StartupLowBattery) (appmgr c)) st
      | LevelCriticalCharging \<Rightarrow>
          emit (BusSendUnicast (StartAllowedMessage StartupLowBatteryCharging) (appmgr c)) st)"

definition enableTethering ::
  "'p Collaborators \<Rightarrow> 'p SystemManagerCommon \<Rightarrow> 'p SystemManagerCommon" where
  "enableTethering c st =
     st\<lparr>phoneModeSubject := snd (setTetheringMode c TetheringOn (phoneModeSubject st))\<rparr>"

definition CpuStatisticsTimerHandler ::
  "'p SystemManagerCommon \<Rightarrow> 'p SystemManagerCommon" where
  "CpuStatisticsTimerHandler st =
     (let st1 = (if \<not> cpuStatisticsTimerInit st
                 then (emit (TimerRestart CpuStatisticsTimerId) st)
                        \<lparr>cpuStatisticsTimerInit := True, cpuStatisticsTimer := True\<rparr>
                 else st)
      in emit PowerManagerUpdateCpuFrequency (emit CpuStatisticsUpdate st1))"

text \<open>
  Modelled from the spec: the timer classes are not among the sources. By section 5 of the
  specification a timer callback is delivered as a message into the inbox of the owning
  thread, and timers are armed and disarmed explicitly; so a timer message runs the
  callback given at the timer's creation while the timer is armed and does nothing
  otherwise.
\<close>

definition Timer_handler ::
  "'p Collaborators \<Rightarrow> TimerId \<Rightarrow> 'p SystemManagerCommon \<Rightarrow> 'p SystemManagerCommon" where
  "Timer_handler c timer st =
     (case timer of
        LowBatteryShutdownDelayTimer \<Rightarrow>
          if lowBatteryShutdownDelay st then CloseSystemHandler LowBattery st else st
      | ServicesPreShutdownRoutineTimer \<Rightarrow>
          if servicesPreShutdownRoutineTimeout st then CloseServices c st else st
      | CpuStatisticsTimerId \<Rightarrow>
          if cpuStatisticsTimer st then CpuStatisticsTimerHandler st else st)"

text \<open>\<open>msg->Execute(this)\<close>: the handler connected to the message's type runs.\<close>

definition Execute ::
  "'p Collaborators \<Rightarrow> Message \<Rightarrow> 'p SystemManagerCommon \<Rightarrow> 'p SystemManagerCommon" where
  "Execute c msg st =
     (case payload msg of
        SystemManagerCmd type closeReason reason \<Rightarrow>
          SystemManagerCmd_handler c msg type closeReason reason st
      | BatteryStatusChangeMessage \<Rightarrow> BatteryStatusChange_handler st
      | BatteryStateChangeMessage \<Rightarrow> BatteryStateChange_handler c st
      | KbdMessage key \<Rightarrow> Kbd_handler st
      | BatteryBrownoutMessage \<Rightarrow> BatteryBrownout_handler st
      | CellularCheckIfStartAllowedMessage \<Rightarrow> CellularCheckIfStartAllowed_handler st
      | UserPowerDownRequest \<Rightarrow> CloseSystemHandler RegularPowerDown st
      | ReadyToCloseMessage \<Rightarrow> readyToCloseHandler c msg st
      | CpuFrequencyMessage action \<Rightarrow> CpuFrequency_handler action st
      | DeviceRegistrationMessage device \<Rightarrow> emit (DeviceManagerRegisterNewDevice device) st
      | SentinelRegistrationMessage sentinel \<Rightarrow>
          emit (PowerManagerRegisterNewSentinel sentinel) st
      | HoldCpuFrequencyMessage name request \<Rightarrow>
          emit (PowerManagerSetCpuFrequencyRequest name request) st
      | ReleaseCpuFrequencyMessage name \<Rightarrow> emit (PowerManagerResetCpuFrequencyRequest name) st
      | PhoneModeRequest mode \<Rightarrow> handlePhoneModeRequest c mode st
      | TetheringStateRequest requestedState \<Rightarrow> handleTetheringStateRequest c requestedState st
      | CheckIfStartAllowedMessage \<Rightarrow> CheckIfStartAllowed_handler c st
      | TetheringEnabledResponse \<Rightarrow> enableTethering c st
      | TimerMessage timer \<Rightarrow> Timer_handler c timer st
      | OtherMessage \<Rightarrow> st)"

section \<open>The main loop\<close>

text \<open>
  One iteration of a loop of \<open>Run\<close> observes the battery store and the result of
  \<open>mailbox.pop()\<close> (\<open>None\<close> when it returns no message). The input of \<open>Run\<close> is the list
  of these observations; when the list is used up while a loop still waits, \<open>Run\<close> has
  not returned, which is the value \<open>None\<close>.
\<close>

type_synonym Tick = "Battery \<times> Message option"

fun Run_running_loop ::
  "'p Collaborators \<Rightarrow> Tick list \<Rightarrow> 'p SystemManagerCommon
    \<Rightarrow> (Tick list \<times> 'p SystemManagerCommon) option" where
  "Run_running_loop c [] st = (if state st = Running then None else Some ([], st))"
| "Run_running_loop c ((b, popped) # ticks) st =
     (if state st = Running
      then (case popped of
              None \<Rightarrow> Run_running_loop c ticks (st\<lparr>battery := b\<rparr>)
            | Some msg \<Rightarrow> Run_running_loop c ticks (Execute c msg (st\<lparr>battery := b\<rparr>)))
      else Some ((b, popped) # ticks, st))"

text \<open>
  In the second loop a discharging battery sets \<open>ShutdownReady\<close> without a pop; the loop
  condition then fails, so that iteration is the last one.
\<close>

fun Run_shutdown_loop ::
  "'p Collaborators \<Rightarrow> Tick list \<Rightarrow> 'p SystemManagerCommon
    \<Rightarrow> (Tick list \<times> 'p SystemManagerCommon) option" where
  "Run_shutdown_loop c [] st = (if state st = Shutdown then None else Some ([], st))"
| "Run_shutdown_loop c ((b, popped) # ticks) st =
     (if state st = Shutdown
      then (if batteryState b = Discharging
            then Some ((b, popped) # ticks, set_State ShutdownReady (st\<lparr>battery := b\<rparr>))
            else (case popped of
                    None \<Rightarrow> Run_shutdown_loop c ticks (st\<lparr>battery := b\<rparr>)
                  | Some msg \<Rightarrow>
                      if sender msg \<noteq> evt_manager c
                      then Run_shutdown_loop c ticks
                             (emit (Log (LogIgnoredMsgOnShutdown (sender msg)))
                                (st\<lparr>battery := b\<rparr>))
                      else Run_shutdown_loop c ticks (Execute c msg (st\<lparr>battery := b\<rparr>))))
      else Some ((b, popped) # ticks, st))"

text \<open>How \<open>Run\<close> ends: one of the three calls of the power manager, or \<open>exit(1)\<close>.\<close>

datatype Termination = Rebooted | PoweredOff | RebootedToUpdate UpdateReason | Exited nat

definition Run_power_off ::
  "'p SystemManagerCommon \<Rightarrow> Termination \<times> 'p SystemManagerCommon" where
  "Run_power_off st =
     (case state st of
        Reboot \<Rightarrow> (Rebooted, emit PowerManagerReboot (emit (Log LogReboot) st))
      | ShutdownReady \<Rightarrow> (PoweredOff, emit PowerManagerPowerOff (emit (Log LogShutdown) st))
      | RebootToUpdate \<Rightarrow>
          (RebootedToUpdate (updateReason st),
           emit (PowerManagerRebootToUpdate (updateReason st)) (emit (Log LogRebootToUpdater) st))
      | Running \<Rightarrow> (Exited 1, emit (Log (LogFatalStateChanged (state st))) st)
      | Shutdown \<Rightarrow> (Exited 1, emit (Log (LogFatalStateChanged (state st))) st))"

text \<open>\<open>Run\<close> from the end of \<open>initialize()\<close> on.\<close>

definition Run ::
  "'p Collaborators \<Rightarrow> Tick list \<Rightarrow> 'p SystemManagerCommon
    \<Rightarrow> (Termination \<times> 'p SystemManagerCommon) option" where
  "Run c ticks st =
     (case Run_running_loop c ticks st of
        None \<Rightarrow> None
      | Some (ticks1, st1) \<Rightarrow>
          (case Run_shutdown_loop c ticks1 st1 of
             None \<Rightarrow> None
           | Some (ticks2, st2) \<Rightarrow>
               let st3 = snd (DestroySystemService c (evt_manager c) st2);
                   st4 = emit CloseServiceSelf st3;
                   st5 = emit EndScheduler st4
               in Some (Run_power_off st5)))"

section \<open>Observations on traces\<close>

text \<open>
  The events of one pass of \<open>DestroyServices\<close> over one service, written out as a list:
  what \<open>kill\<close> adds, and what the loop body adds.
\<close>

definition kill_events :: "Service \<Rightarrow> Event list" where
  "kill_events s =
     [Log (LogDidNotRespondToKill (GetName s)), ServiceDeinitHandler (GetName s)]
     @ (if DeinitHandler s \<noteq> Success then [Log (LogDeinitHandler (DeinitHandler s))] else [])
     @ [ServiceCloseHandler (GetName s)]"

definition destroy_events :: "'p Collaborators \<Rightarrow> string list \<Rightarrow> Service \<Rightarrow> Event list" where
  "destroy_events c whitelist s =
     (if GetName s \<in> set whitelist then [Log (LogDelayClosing (GetName s))]
      else BusSendUnicastSyncExit (GetName s)
           # (if fst (exitAnswer c (GetName s)) \<noteq> Success
              then Log (LogServiceToCloseDidNotRespond (GetName s)) # kill_events s
              else if snd (exitAnswer c (GetName s)) \<noteq> Success
              then Log (LogServiceNoticedFailureAtClose (GetName s)) # kill_events s
              else []))"

text \<open>
  The events that reach a service during teardown: the synchronous Exit request and the
  two handlers that \<open>kill\<close> calls.
\<close>

fun is_service_action :: "Event \<Rightarrow> bool" where
  "is_service_action (BusSendUnicastSyncExit n) = True"
| "is_service_action (ServiceDeinitHandler n) = True"
| "is_service_action (ServiceCloseHandler n) = True"
| "is_service_action e = False"

definition service_actions :: "Event list \<Rightarrow> Event list" where
  "service_actions tr = filter is_service_action tr"

text \<open>
  The destroy pass as the specification words it: nothing for a whitelisted service; for
  any other one graceful close request, followed by deinitialize-then-close when the
  request did not return success.
\<close>

definition destroy_pass_actions ::
  "'p Collaborators \<Rightarrow> string list \<Rightarrow> Service \<Rightarrow> Event list" where
  "destroy_pass_actions c whitelist s =
     (if GetName s \<in> set whitelist then []
      else if exitAnswer c (GetName s) = (Success, Success)
      then [BusSendUnicastSyncExit (GetName s)]
      else [BusSendUnicastSyncExit (GetName s), ServiceDeinitHandler (GetName s),
            ServiceCloseHandler (GetName s)])"

text \<open>The names logged as not having reported before the timeout, in order.\<close>

fun reported_late :: "Event \<Rightarrow> string list" where
  "reported_late (Log (LogDidNotReportBeforeTimeout n)) = [n]"
| "reported_late e = []"

definition logged_not_reported :: "Event list \<Rightarrow> string list" where
  "logged_not_reported tr = concat (map reported_late tr)"

text \<open>The messages sent with \<open>bus.sendUnicast\<close>, with their destinations, in order.\<close>

fun bus_send :: "Event \<Rightarrow> (OutMessage \<times> string) list" where
  "bus_send (BusSendUnicast m destination) = [(m, destination)]"
| "bus_send e = []"

definition sent_messages :: "Event list \<Rightarrow> (OutMessage \<times> string) list" where
  "sent_messages tr = concat (map bus_send tr)"

text \<open>How often the closing procedure has been invoked with a given reason.\<close>

definition close_invocations :: "Event list \<Rightarrow> nat" where
  "close_invocations tr = length (filter (\<lambda>e. e = Log LogInvokingClosingProcedure) tr)"

text \<open>Acknowledgments from the named senders, handled one after the other.\<close>

definition ReadyToClose_from :: "string \<Rightarrow> Message" where
  "ReadyToClose_from n = \<lparr>sender = n, channel = OtherChannel, payload = ReadyToCloseMessage\<rparr>"

fun acknowledge_all ::
  "'p Collaborators \<Rightarrow> string list \<Rightarrow> 'p SystemManagerCommon \<Rightarrow> 'p SystemManagerCommon" where
  "acknowledge_all c [] st = st"
| "acknowledge_all c (n # ns) st = acknowledge_all c ns (Execute c (ReadyToClose_from n) st)"

section \<open>Example inputs\<close>

text \<open>
  Collaborators with the name constants of the product, a bus on which \<open>svcB\<close> does not
  answer the Exit request, and a phone mode subject that is just the tethering flag.
\<close>

definition example_collaborators :: "bool Collaborators" where
  "example_collaborators =
     \<lparr>service_desktop = ''ServiceDesktop'', evt_manager = ''EventManager'', gui = ''ServiceGUI'',
      db = ''ServiceDB'', eink = ''ServiceEink'', appmgr = ''ApplicationManager'',
      startAnswer = (\<lambda>n. (Success, Success)),
      exitAnswer = (\<lambda>n. if n = ''svcB'' then (Timeout, Failure) else (Success, Success)),
      isTetheringEnabled = (\<lambda>p. p),
      setPhoneMode = (\<lambda>m p. p),
      setTetheringMode = (\<lambda>t p. (p \<noteq> (t = TetheringOn), t = TetheringOn))\<rparr>"

definition initial_manager :: "bool SystemManagerCommon" where
  "initial_manager =
     \<lparr>state = Running, servicesList = [], applicationsList = [], readyForCloseRegister = [],
      lowBatteryShutdownDelay = False, servicesPreShutdownRoutineTimeout = False,
      cpuStatisticsTimer = False, cpuStatisticsTimerInit = False, updateReason = 0,
      phoneModeSubject = False,
      battery = \<lparr>levelState = LevelNormal, batteryState = Charging\<rparr>, trace = []\<rparr>"

definition svc :: "string \<Rightarrow> Service" where
  "svc n = \<lparr>GetName = n, DeinitHandler = Success\<rparr>"

definition manager_with :: "Service list \<Rightarrow> bool SystemManagerCommon" where
  "manager_with services = initial_manager\<lparr>servicesList := services\<rparr>"

definition message_from :: "string \<Rightarrow> Payload \<Rightarrow> Message" where
  "message_from n p = \<lparr>sender = n, channel = SystemManagerRequests, payload = p\<rparr>"

text \<open>
  A regular close round on the services \<open>svcA\<close> and \<open>svcB\<close> in which \<open>svcA\<close> has
  acknowledged and \<open>svcB\<close> has not.
\<close>

definition round_with_silent_svcB :: "bool SystemManagerCommon" where
  "round_with_silent_svcB =
     Execute example_collaborators (ReadyToClose_from ''svcA'')
       (CloseSystemHandler RegularPowerDown (manager_with [svc ''svcA'', svc ''svcB'']))"

text \<open>A manager that has completed a close round, with the battery discharging.\<close>

definition manager_in_shutdown :: "bool SystemManagerCommon" where
  "manager_in_shutdown =
     initial_manager\<lparr>state := Shutdown, servicesList := [svc ''EventManager''],
                      battery := \<lparr>levelState = LevelShutdown, batteryState = Discharging\<rparr>\<rparr>"

text \<open>Inputs of \<open>Run\<close>: a regular close that ends in power off, and a reboot request.\<close>

definition example_services :: "Service list" where
  "example_services = [svc ''EventManager'', svc ''svcA'', svc ''svcB'']"

definition example_ticks :: "Tick list" where
  "example_ticks =
     [(\<lparr>levelState = LevelNormal, batteryState = Charging\<rparr>,
       Some (message_from ''ApplicationManager'' (SystemManagerCmd CloseSystem RegularPowerDown 0))),
      (\<lparr>levelState = LevelNormal, batteryState = Charging\<rparr>,
       Some (ReadyToClose_from ''svcA'')),
      (\<lparr>levelState = LevelNormal, batteryState = Charging\<rparr>,
       Some (message_from ''SystemManager'' (TimerMessage ServicesPreShutdownRoutineTimer))),
      (\<lparr>levelState = LevelNormal, batteryState = Charging\<rparr>, None),
      (\<lparr>levelState = LevelNormal, batteryState = Discharging\<rparr>, None)]"

definition reboot_ticks :: "Tick list" where
  "reboot_ticks =
     [(\<lparr>levelState = LevelNormal, batteryState = Charging\<rparr>,
       Some (message_from ''ServiceDesktop'' (SystemManagerCmd CodeReboot CloseReasonReboot 0))),
      (\<lparr>levelState = LevelNormal, batteryState = Charging\<rparr>,
       Some (ReadyToClose_from ''svcA'')),
      (\<lparr>levelState = LevelNormal, batteryState = Charging\<rparr>,
       Some (message_from ''SystemManager'' (TimerMessage ServicesPreShutdownRoutineTimer)))]"


text \<open>The state in which the first of these runs ends.\<close>

definition example_final_manager :: "bool SystemManagerCommon" where
  "example_final_manager =
     \<lparr>state = ShutdownReady, servicesList = [], applicationsList = [],
      readyForCloseRegister = [], lowBatteryShutdownDelay = False,
      servicesPreShutdownRoutineTimeout = True, cpuStatisticsTimer = False,
      cpuStatisticsTimerInit = False, updateReason = 0, phoneModeSubject = False,
      battery = \<lparr>levelState = LevelNormal, batteryState = Discharging\<rparr>,
      trace =
        [Log LogInvokingClosingProcedure, TimerStop LowBatteryShutdownDelayTimer,
         BusSendUnicast (ServiceCloseReasonMessage RegularPowerDown) ''svcB'',
         BusSendUnicast (ServiceCloseReasonMessage RegularPowerDown) ''svcA'',
         BusSendUnicast (ServiceCloseReasonMessage RegularPowerDown) ''EventManager'',
         TimerStart ServicesPreShutdownRoutineTimer,
         Log (LogReadyToClose ''svcA''),
         Log (LogDidNotReportBeforeTimeout ''svcB''),
         Log (LogDidNotReportBeforeTimeout ''EventManager''),
         BusSendUnicastSyncExit ''svcB'',
         Log (LogServiceToCloseDidNotRespond ''svcB''),
         Log (LogDidNotRespondToKill ''svcB''),
         ServiceDeinitHandler ''svcB'', ServiceCloseHandler ''svcB'',
         BusSendUnicastSyncExit ''svcA'',
         Log (LogDelayClosing ''EventManager''),
         Log (LogStateChange Running Shutdown),
         Log (LogStateChange Shutdown ShutdownReady),
         BusSendUnicastSyncExit ''EventManager'', CloseServiceSelf,
         EndScheduler, Log LogShutdown, PowerManagerPowerOff]\<rparr>"

text \<open>Battery readings below the normal level, and a manager that observes one.\<close>

definition low_battery :: Battery where
  "low_battery = \<lparr>levelState = LevelShutdown, batteryState = Discharging\<rparr>"

definition critical_battery :: Battery where
  "critical_battery = \<lparr>levelState = LevelCriticalNotCharging, batteryState = Discharging\<rparr>"

definition low_battery_manager :: "bool SystemManagerCommon" where
  "low_battery_manager = (manager_with [svc ''svcA''])\<lparr>battery := low_battery\<rparr>"

section \<open>Closed forms of the loops\<close>

lemma emit_fields [simp]:
  "state (emit e st) = state st"
  "servicesList (emit e st) = servicesList st"
  "applicationsList (emit e st) = applicationsList st"
  "readyForCloseRegister (emit e st) = readyForCloseRegister st"
  "lowBatteryShutdownDelay (emit e st) = lowBatteryShutdownDelay st"
  "servicesPreShutdownRoutineTimeout (emit e st) = servicesPreShutdownRoutineTimeout st"
  "cpuStatisticsTimer (emit e st) = cpuStatisticsTimer st"
  "cpuStatisticsTimerInit (emit e st) = cpuStatisticsTimerInit st"
  "updateReason (emit e st) = updateReason st"
  "phoneModeSubject (emit e st) = phoneModeSubject st"
  "battery (emit e st) = battery st"
  "trace (emit e st) = trace st @ [e]"
  by (simp_all add: emit_def)

lemma isOnWhitelist_set: "isOnWhitelist list n = (n \<in> set list)"
  by (induction list) (auto simp: isOnWhitelist_def)

lemma preCloseRoutine_loop_eq:
  "preCloseRoutine_loop r xs st =
     st\<lparr>readyForCloseRegister := readyForCloseRegister st @ map GetName xs,
        trace := trace st
                 @ map (\<lambda>s. BusSendUnicast (ServiceCloseReasonMessage r) (GetName s)) xs\<rparr>"
  by (induction xs arbitrary: st) (simp_all add: emit_def)

lemma CloseSystemHandler_eq:
  "CloseSystemHandler r st =
     st\<lparr>servicesList := rev (servicesList st),
        readyForCloseRegister := readyForCloseRegister st @ map GetName (rev (servicesList st)),
        lowBatteryShutdownDelay := False,
        servicesPreShutdownRoutineTimeout := True,
        trace := trace st
                 @ [Log LogInvokingClosingProcedure, TimerStop LowBatteryShutdownDelayTimer]
                 @ map (\<lambda>s. BusSendUnicast (ServiceCloseReasonMessage r) (GetName s))
                     (rev (servicesList st))
                 @ [TimerStart ServicesPreShutdownRoutineTimer]\<rparr>"
  by (simp add: CloseSystemHandler_def preCloseRoutine_def preCloseRoutine_loop_eq emit_def
        Let_def)

lemma RunSystemService_servicesList:
  "servicesList (snd (RunSystemService c s st)) = servicesList st @ [s]"
  by (simp add: RunSystemService_def RunService_def Let_def)

lemma StartSystemServices_servicesList:
  "StartSystemServices c xs st = Inr st' \<Longrightarrow> servicesList st' = servicesList st @ xs"
proof (induction xs arbitrary: st)
  case Nil
  then show ?case by simp
next
  case (Cons x xs)
  obtain ok st1 where r: "RunSystemService c x st = (ok, st1)"
    by (cases "RunSystemService c x st")
  have l: "servicesList st1 = servicesList st @ [x]"
    using RunSystemService_servicesList [of c x st] r by simp
  from Cons.prems r have "StartSystemServices c xs st1 = Inr st'"
    by (simp split: if_splits)
  from Cons.IH [OF this] l show ?case by simp
qed

lemma DestroyServices_loop_eq:
  "servicesList st = passed @ ahead \<Longrightarrow>
   DestroyServices_loop c whitelist passed ahead st =
     st\<lparr>servicesList := passed @ filter (\<lambda>s. GetName s \<in> set whitelist) ahead,
        trace := trace st @ concat (map (destroy_events c whitelist) ahead)\<rparr>"
proof (induction ahead arbitrary: passed st)
  case Nil
  then show ?case by simp
next
  case (Cons s ahead)
  show ?case
  proof (cases "GetName s \<in> set whitelist")
    case True
    have "servicesList (emit (Log (LogDelayClosing (GetName s))) st) = (passed @ [s]) @ ahead"
      using Cons.prems by simp
    from Cons.IH [OF this] True Cons.prems show ?thesis
      by (simp add: isOnWhitelist_set destroy_events_def emit_def)
  next
    case False
    obtain closed st1 where r: "RequestServiceClose c (GetName s) st = (closed, st1)"
      by (cases "RequestServiceClose c (GetName s) st")
    define st2 where
      "st2 = (if \<not> closed
              then kill s (emit (Log (LogDidNotRespondToKill (GetName s))) st1)
              else st1)"
    have t: "st2 = st\<lparr>trace := trace st @ destroy_events c whitelist s\<rparr>"
      using r False unfolding st2_def
      by (auto simp: RequestServiceClose_def Let_def kill_def kill_events_def
            destroy_events_def emit_def split: if_splits)
    have "servicesList (st2\<lparr>servicesList := passed @ ahead\<rparr>) = passed @ ahead"
      by simp
    from Cons.IH [OF this] have
      "DestroyServices_loop c whitelist passed ahead (st2\<lparr>servicesList := passed @ ahead\<rparr>) =
         (st2\<lparr>servicesList := passed @ ahead\<rparr>)
           \<lparr>servicesList := passed @ filter (\<lambda>s. GetName s \<in> set whitelist) ahead,
            trace := trace (st2\<lparr>servicesList := passed @ ahead\<rparr>)
                     @ concat (map (destroy_events c whitelist) ahead)\<rparr>" .
    then show ?thesis using False r t
      by (simp add: isOnWhitelist_set st2_def [symmetric])
  qed
qed

lemma DestroyServices_eq:
  "DestroyServices c whitelist st =
     st\<lparr>servicesList := filter (\<lambda>s. GetName s \<in> set whitelist) (servicesList st),
        trace := trace st @ concat (map (destroy_events c whitelist) (servicesList st))\<rparr>"
  using DestroyServices_loop_eq [of st "[]" "servicesList st" c whitelist]
  by (simp add: DestroyServices_def)

lemma service_actions_append [simp]:
  "service_actions (xs @ ys) = service_actions xs @ service_actions ys"
  by (simp add: service_actions_def)

lemma service_actions_destroy_events:
  "service_actions (destroy_events c whitelist s) = destroy_pass_actions c whitelist s"
  by (cases "exitAnswer c (GetName s)")
     (auto simp: service_actions_def destroy_events_def destroy_pass_actions_def kill_events_def)

lemma service_actions_concat_destroy_events:
  "service_actions (concat (map (destroy_events c whitelist) xs)) =
     concat (map (destroy_pass_actions c whitelist) xs)"
  by (induction xs) (simp_all add: service_actions_destroy_events, simp add: service_actions_def)

lemma CloseServices_log_eq:
  "CloseServices_log ns st = st\<lparr>trace := trace st @ map (\<lambda>n. Log (LogDidNotReportBeforeTimeout n)) ns\<rparr>"
  by (induction ns arbitrary: st) (simp_all add: emit_def)

lemma CloseServices_eq:
  "CloseServices c st =
     st\<lparr>state := Shutdown,
        servicesList := filter (\<lambda>s. GetName s \<in> set (regularClose_whitelist c)) (servicesList st),
        readyForCloseRegister := [],
        trace := trace st @ map (\<lambda>n. Log (LogDidNotReportBeforeTimeout n)) (readyForCloseRegister st)
                 @ concat (map (destroy_events c (regularClose_whitelist c)) (servicesList st))
                 @ [Log (LogStateChange (state st) Shutdown)]\<rparr>"
  by (simp add: CloseServices_def CloseServices_log_eq DestroyServices_eq set_State_def emit_def Let_def)

lemma UpdateSystemHandler_eq:
  "UpdateSystemHandler c st =
     st\<lparr>servicesList := filter (\<lambda>s. GetName s \<in> set (update_whitelist c)) (rev (servicesList st)),
        trace := trace st @ [Log LogStartingUpdate]
                 @ concat (map (destroy_events c (update_whitelist c)) (rev (servicesList st)))\<rparr>"
  by (simp add: UpdateSystemHandler_def DestroyServices_eq emit_def Let_def)

lemma RestoreSystemHandler_eq:
  "RestoreSystemHandler c st =
     st\<lparr>servicesList := filter (\<lambda>s. GetName s \<in> set (restore_whitelist c)) (rev (servicesList st)),
        trace := trace st @ [Log LogEnteringRestore]
                 @ concat (map (destroy_events c (restore_whitelist c)) (rev (servicesList st)))
                 @ [Log LogEnteredRestore]\<rparr>"
  by (simp add: RestoreSystemHandler_def DestroyServices_eq emit_def Let_def)

lemma service_actions_logs [simp]:
  "service_actions (map (\<lambda>n. Log (f n)) ns) = []"
  by (induction ns) (simp_all add: service_actions_def)

lemma service_actions_Cons [simp]:
  "service_actions (e # tr) = (if is_service_action e then [e] else []) @ service_actions tr"
  by (simp add: service_actions_def)

lemma service_actions_Nil [simp]: "service_actions [] = []"
  by (simp add: service_actions_def)

lemma sent_messages_simps [simp]:
  "sent_messages [] = []"
  "sent_messages (e # tr) = bus_send e @ sent_messages tr"
  "sent_messages (xs @ ys) = sent_messages xs @ sent_messages ys"
  by (simp_all add: sent_messages_def)

lemma sent_messages_broadcast:
  "sent_messages (map (\<lambda>s. BusSendUnicast m (f s)) xs) = map (\<lambda>s. (m, f s)) xs"
  by (induction xs) simp_all

section \<open>Claims\<close>

subsection \<open>Order of the close broadcast\<close>

text \<open>
  C1. Services are registered in the order in which they are started (\<open>RunSystemService\<close>
  appends to \<open>servicesList\<close>). Whatever services \<open>started\<close> were started on top of the
  registry of \<open>st0\<close>, and for any close reason, \<open>CloseSystemHandler\<close> leaves the registry
  reversed, sends the close-reason notification to every registered service in that
  reversed order (last started, first notified) and appends the names, in the same order,
  to the pending-acknowledgment register. With \<open>started = []\<close> this is the statement for
  an arbitrary registry.
\<close>

theorem C1_close_broadcast_in_reverse_start_order:
  assumes "StartSystemServices c started st0 = Inr st"
  shows "servicesList (CloseSystemHandler r st) = rev (servicesList st0 @ started)
    \<and> sent_messages (trace (CloseSystemHandler r st)) =
        sent_messages (trace st)
        @ map (\<lambda>s. (ServiceCloseReasonMessage r, GetName s)) (rev (servicesList st0 @ started))
    \<and> readyForCloseRegister (CloseSystemHandler r st) =
        readyForCloseRegister st @ map GetName (rev (servicesList st0 @ started))"
proof -
  have l: "servicesList st = servicesList st0 @ started"
    using assms by (rule StartSystemServices_servicesList)
  have t: "sent_messages (trace (CloseSystemHandler r st)) =
        sent_messages (trace st)
        @ map (\<lambda>s. (ServiceCloseReasonMessage r, GetName s)) (rev (servicesList st))"
    by (simp add: CloseSystemHandler_eq sent_messages_broadcast)
  show ?thesis
    unfolding t by (simp add: CloseSystemHandler_eq l)
qed

text \<open>Services started in the order A, B, C are notified in the order C, B, A.\<close>

theorem C1_witness:
  "StartSystemServices example_collaborators [svc ''A'', svc ''B'', svc ''C''] initial_manager
     = Inr (initial_manager\<lparr>servicesList := [svc ''A'', svc ''B'', svc ''C''],
              trace := [ServiceStartService ''A'', BusSendUnicastSyncStart ''A'',
                        ServiceStartService ''B'', BusSendUnicastSyncStart ''B'',
                        ServiceStartService ''C'', BusSendUnicastSyncStart ''C'']\<rparr>)
   \<and> sent_messages (trace (CloseSystemHandler RegularPowerDown
        (initial_manager\<lparr>servicesList := [svc ''A'', svc ''B'', svc ''C''],
              trace := [ServiceStartService ''A'', BusSendUnicastSyncStart ''A'',
                        ServiceStartService ''B'', BusSendUnicastSyncStart ''B'',
                        ServiceStartService ''C'', BusSendUnicastSyncStart ''C'']\<rparr>)))
      = [(ServiceCloseReasonMessage RegularPowerDown, ''C''),
         (ServiceCloseReasonMessage RegularPowerDown, ''B''),
         (ServiceCloseReasonMessage RegularPowerDown, ''A'')]"
proof -
  have h: "StartSystemServices example_collaborators [svc ''A'', svc ''B'', svc ''C''] initial_manager
     = Inr (initial_manager\<lparr>servicesList := [svc ''A'', svc ''B'', svc ''C''],
              trace := [ServiceStartService ''A'', BusSendUnicastSyncStart ''A'',
                        ServiceStartService ''B'', BusSendUnicastSyncStart ''B'',
                        ServiceStartService ''C'', BusSendUnicastSyncStart ''C'']\<rparr>)"
    by (simp add: example_collaborators_def initial_manager_def svc_def RunSystemService_def
          RunService_def emit_def)
  show ?thesis
    using h C1_close_broadcast_in_reverse_start_order [OF h, of RegularPowerDown]
    by (simp add: initial_manager_def svc_def)
qed

subsection \<open>The destroy pass and the whitelists\<close>

text \<open>
  C2. For the update, the restore and the regular-close round: after the destroy pass the
  registry holds exactly the services whose names are on the round's whitelist (in the
  order of the pass), and the actions that reached services during the pass are, for every
  service not on the whitelist and in the order of the pass, one synchronous close request,
  followed by the deinitialize and close handlers of \<open>kill\<close> when that request did not
  return success (and by no second request). The update and restore handlers reverse the
  registry before the pass.
\<close>

theorem C2_destroy_pass_keeps_whitelist:
  "servicesList (UpdateSystemHandler c st) =
     filter (\<lambda>s. GetName s \<in> set (update_whitelist c)) (rev (servicesList st))
   \<and> service_actions (trace (UpdateSystemHandler c st)) =
       service_actions (trace st)
       @ concat (map (destroy_pass_actions c (update_whitelist c)) (rev (servicesList st)))
   \<and> servicesList (RestoreSystemHandler c st) =
       filter (\<lambda>s. GetName s \<in> set (restore_whitelist c)) (rev (servicesList st))
   \<and> service_actions (trace (RestoreSystemHandler c st)) =
       service_actions (trace st)
       @ concat (map (destroy_pass_actions c (restore_whitelist c)) (rev (servicesList st)))
   \<and> servicesList (CloseServices c st) =
       filter (\<lambda>s. GetName s \<in> set (regularClose_whitelist c)) (servicesList st)
   \<and> service_actions (trace (CloseServices c st)) =
       service_actions (trace st)
       @ concat (map (destroy_pass_actions c (regularClose_whitelist c)) (servicesList st))"
  by (simp add: UpdateSystemHandler_eq RestoreSystemHandler_eq CloseServices_eq
        service_actions_concat_destroy_events)

lemma logged_not_reported_simps [simp]:
  "logged_not_reported [] = []"
  "logged_not_reported (e # tr) = reported_late e @ logged_not_reported tr"
  "logged_not_reported (xs @ ys) = logged_not_reported xs @ logged_not_reported ys"
  by (simp_all add: logged_not_reported_def)

lemma logged_not_reported_names:
  "logged_not_reported (map (\<lambda>n. Log (LogDidNotReportBeforeTimeout n)) ns) = ns"
  by (induction ns) simp_all

lemma logged_not_reported_destroy_events:
  "logged_not_reported (concat (map (destroy_events c whitelist) xs)) = []"
  by (induction xs) (simp_all add: destroy_events_def kill_events_def)

lemma round_with_silent_svcB_eq: "round_with_silent_svcB = initial_manager
  \<lparr>servicesList := [svc ''svcB'', svc ''svcA''],
   readyForCloseRegister := [''svcB''],
   servicesPreShutdownRoutineTimeout := True,
   trace := [Log LogInvokingClosingProcedure, TimerStop LowBatteryShutdownDelayTimer,
       BusSendUnicast (ServiceCloseReasonMessage RegularPowerDown) ''svcB'',
       BusSendUnicast (ServiceCloseReasonMessage RegularPowerDown) ''svcA'',
       TimerStart ServicesPreShutdownRoutineTimer, Log (LogReadyToClose ''svcA'')]\<rparr>"
  by (simp add: round_with_silent_svcB_def Execute_def ReadyToClose_from_def readyToCloseHandler_def
     CloseSystemHandler_eq manager_with_def initial_manager_def svc_def emit_def Let_def)

subsection \<open>Expiry of the watchdog\<close>

text \<open>
  C3, as the specification states it, fails: the services that did not acknowledge are not
  left out of the destroy pass. In the round below \<open>svcB\<close> is still in the register when
  the watchdog fires; the pass sends it the close request, which it does not answer, kills
  it and removes it from the registry.
\<close>

theorem C3_counterexample:
  "readyForCloseRegister round_with_silent_svcB = [''svcB'']
   \<and> servicesPreShutdownRoutineTimeout round_with_silent_svcB
   \<and> service_actions
        (trace (Timer_handler example_collaborators ServicesPreShutdownRoutineTimer
                  round_with_silent_svcB)) =
       [BusSendUnicastSyncExit ''svcB'', ServiceDeinitHandler ''svcB'',
        ServiceCloseHandler ''svcB'', BusSendUnicastSyncExit ''svcA'']
   \<and> servicesList
        (Timer_handler example_collaborators ServicesPreShutdownRoutineTimer
           round_with_silent_svcB) = []"
  by (simp add: round_with_silent_svcB_eq Timer_handler_def CloseServices_eq
        initial_manager_def svc_def example_collaborators_def regularClose_whitelist_def
        destroy_events_def kill_events_def service_actions_def)

text \<open>
  C3, amended. When the watchdog fires while it is armed, every name still in the register
  is logged as not having reported, the register is cleared, and the destroy pass of the
  regular-close round runs over the whole registry, whether or not a service had
  acknowledged: every service not on the whitelist gets the close request, is killed when
  the request does not return success, and is removed. No service is killed for the
  missing acknowledgment alone. The state becomes \<open>Shutdown\<close>.
\<close>

theorem C3_watchdog_expiry:
  assumes "servicesPreShutdownRoutineTimeout st"
  shows "logged_not_reported (trace (Timer_handler c ServicesPreShutdownRoutineTimer st)) =
           logged_not_reported (trace st) @ readyForCloseRegister st
    \<and> readyForCloseRegister (Timer_handler c ServicesPreShutdownRoutineTimer st) = []
    \<and> servicesList (Timer_handler c ServicesPreShutdownRoutineTimer st) =
        filter (\<lambda>s. GetName s \<in> set (regularClose_whitelist c)) (servicesList st)
    \<and> service_actions (trace (Timer_handler c ServicesPreShutdownRoutineTimer st)) =
        service_actions (trace st)
        @ concat (map (destroy_pass_actions c (regularClose_whitelist c)) (servicesList st))
    \<and> state (Timer_handler c ServicesPreShutdownRoutineTimer st) = Shutdown"
  using assms
  by (simp add: Timer_handler_def CloseServices_eq logged_not_reported_names
        logged_not_reported_destroy_events service_actions_concat_destroy_events)

theorem C3_witness:
  "servicesPreShutdownRoutineTimeout round_with_silent_svcB
   \<and> logged_not_reported
        (trace (Timer_handler example_collaborators ServicesPreShutdownRoutineTimer
                  round_with_silent_svcB)) = [''svcB'']
   \<and> state (Timer_handler example_collaborators ServicesPreShutdownRoutineTimer
        round_with_silent_svcB) = Shutdown"
proof -
  have h: "servicesPreShutdownRoutineTimeout round_with_silent_svcB"
    by (simp add: round_with_silent_svcB_eq)
  show ?thesis
    using h C3_watchdog_expiry [OF h, of example_collaborators]
    by (simp add: round_with_silent_svcB_eq initial_manager_def)
qed

subsection \<open>The low-battery timer\<close>

text \<open>
  C10. Every run of \<open>CloseSystemHandler\<close>, for any close reason, stops the low-battery
  shutdown-delay timer before it sends the first close notification: the stop is the
  first effect after the log line, the broadcasts follow it, and the timer is disarmed
  afterwards, so that a timer message of that timer that is handled next does nothing.
\<close>

theorem C10_close_stops_low_battery_timer_first:
  "lowBatteryShutdownDelay (CloseSystemHandler r st) = False
   \<and> trace (CloseSystemHandler r st) =
       trace st
       @ Log LogInvokingClosingProcedure # TimerStop LowBatteryShutdownDelayTimer
         # map (\<lambda>s. BusSendUnicast (ServiceCloseReasonMessage r) (GetName s))
             (rev (servicesList st))
       @ [TimerStart ServicesPreShutdownRoutineTimer]
   \<and> Timer_handler c LowBatteryShutdownDelayTimer (CloseSystemHandler r st) =
       CloseSystemHandler r st"
  by (simp add: CloseSystemHandler_eq Timer_handler_def)

lemma readyToCloseHandler_idle:
  "readyForCloseRegister st = [] \<Longrightarrow> readyToCloseHandler c msg st = st"
  by (simp add: readyToCloseHandler_def)

lemma readyToCloseHandler_last:
  assumes "servicesPreShutdownRoutineTimeout st" and "readyForCloseRegister st \<noteq> []"
    and "removeAll (sender msg) (readyForCloseRegister st) = []"
  shows "readyToCloseHandler c msg st =
           CloseServices c
             (st\<lparr>readyForCloseRegister := [],
                 trace := trace st @ [Log (LogReadyToClose (sender msg)), Log LogAllServicesReady,
                                      TimerStop ServicesPreShutdownRoutineTimer],
                 servicesPreShutdownRoutineTimeout := False\<rparr>)"
  using assms by (simp add: readyToCloseHandler_def Let_def emit_def)

lemma readyToCloseHandler_more:
  assumes "servicesPreShutdownRoutineTimeout st" and "readyForCloseRegister st \<noteq> []"
    and "removeAll (sender msg) (readyForCloseRegister st) \<noteq> []"
  shows "readyToCloseHandler c msg st =
           st\<lparr>readyForCloseRegister := removeAll (sender msg) (readyForCloseRegister st),
              trace := trace st @ [Log (LogReadyToClose (sender msg))]\<rparr>"
  using assms by (simp add: readyToCloseHandler_def Let_def emit_def)

lemma readyToCloseHandler_register:
  assumes "servicesPreShutdownRoutineTimeout st"
  shows "readyForCloseRegister (readyToCloseHandler c msg st) =
           removeAll (sender msg) (readyForCloseRegister st)"
proof (cases "readyForCloseRegister st = []")
  case True
  then show ?thesis by (simp add: readyToCloseHandler_idle)
next
  case False
  show ?thesis
  proof (cases "removeAll (sender msg) (readyForCloseRegister st) = []")
    case True
    with assms False show ?thesis
      by (simp add: readyToCloseHandler_last CloseServices_eq)
  next
    case False
    with assms \<open>readyForCloseRegister st \<noteq> []\<close> show ?thesis
      by (simp add: readyToCloseHandler_more)
  qed
qed

lemma readyToCloseHandler_twice:
  "readyForCloseRegister (readyToCloseHandler c msg (readyToCloseHandler c msg st)) =
     readyForCloseRegister (readyToCloseHandler c msg st)
   \<and> servicesList (readyToCloseHandler c msg (readyToCloseHandler c msg st)) =
     servicesList (readyToCloseHandler c msg st)
   \<and> state (readyToCloseHandler c msg (readyToCloseHandler c msg st)) =
     state (readyToCloseHandler c msg st)"
proof (cases "servicesPreShutdownRoutineTimeout st \<and> readyForCloseRegister st \<noteq> []")
  case False
  then have "readyToCloseHandler c msg st = st"
    by (auto simp: readyToCloseHandler_def)
  then show ?thesis by simp
next
  case True
  show ?thesis
  proof (cases "removeAll (sender msg) (readyForCloseRegister st) = []")
    case True
    with \<open>servicesPreShutdownRoutineTimeout st \<and> readyForCloseRegister st \<noteq> []\<close>
    have "readyForCloseRegister (readyToCloseHandler c msg st) = []"
      by (simp add: readyToCloseHandler_last CloseServices_eq)
    then show ?thesis by (simp add: readyToCloseHandler_idle)
  next
    case False
    with True have e: "readyToCloseHandler c msg st =
           st\<lparr>readyForCloseRegister := removeAll (sender msg) (readyForCloseRegister st),
              trace := trace st @ [Log (LogReadyToClose (sender msg))]\<rparr>"
      by (simp add: readyToCloseHandler_more)
    show ?thesis
      unfolding e using True False
      by (subst readyToCloseHandler_more; simp)+
  qed
qed

subsection \<open>Acknowledgments\<close>

text \<open>
  C4. While the watchdog of a round is armed: handling an acknowledgment removes the
  sender's name, and nothing else, from the pending-acknowledgment register; handling the
  same acknowledgment a second time changes neither the register nor the registry nor the
  state; an acknowledgment from a sender that is not pending leaves register, registry,
  state and watchdog as they are; and when the acknowledgment empties a register that was
  not empty, the watchdog is stopped and the destroy pass of the regular-close round runs,
  after which the state is \<open>Shutdown\<close>.
\<close>

theorem C4_acknowledgment:
  assumes "servicesPreShutdownRoutineTimeout st"
  shows "readyForCloseRegister (readyToCloseHandler c msg st) =
           removeAll (sender msg) (readyForCloseRegister st)
    \<and> readyForCloseRegister (readyToCloseHandler c msg (readyToCloseHandler c msg st)) =
        readyForCloseRegister (readyToCloseHandler c msg st)
    \<and> servicesList (readyToCloseHandler c msg (readyToCloseHandler c msg st)) =
        servicesList (readyToCloseHandler c msg st)
    \<and> state (readyToCloseHandler c msg (readyToCloseHandler c msg st)) =
        state (readyToCloseHandler c msg st)
    \<and> (sender msg \<notin> set (readyForCloseRegister st) \<longrightarrow>
         readyForCloseRegister (readyToCloseHandler c msg st) = readyForCloseRegister st
         \<and> servicesList (readyToCloseHandler c msg st) = servicesList st
         \<and> state (readyToCloseHandler c msg st) = state st
         \<and> servicesPreShutdownRoutineTimeout (readyToCloseHandler c msg st))
    \<and> (readyForCloseRegister st \<noteq> []
         \<and> removeAll (sender msg) (readyForCloseRegister st) = [] \<longrightarrow>
         servicesPreShutdownRoutineTimeout (readyToCloseHandler c msg st) = False
         \<and> TimerStop ServicesPreShutdownRoutineTimer
             \<in> set (trace (readyToCloseHandler c msg st))
         \<and> servicesList (readyToCloseHandler c msg st) =
             filter (\<lambda>s. GetName s \<in> set (regularClose_whitelist c)) (servicesList st)
         \<and> service_actions (trace (readyToCloseHandler c msg st)) =
             service_actions (trace st)
             @ concat (map (destroy_pass_actions c (regularClose_whitelist c)) (servicesList st))
         \<and> state (readyToCloseHandler c msg st) = Shutdown)"
proof -
  have a: "readyForCloseRegister (readyToCloseHandler c msg st) =
           removeAll (sender msg) (readyForCloseRegister st)"
    using assms by (rule readyToCloseHandler_register)
  have b: "sender msg \<notin> set (readyForCloseRegister st) \<longrightarrow>
         readyForCloseRegister (readyToCloseHandler c msg st) = readyForCloseRegister st
         \<and> servicesList (readyToCloseHandler c msg st) = servicesList st
         \<and> state (readyToCloseHandler c msg st) = state st
         \<and> servicesPreShutdownRoutineTimeout (readyToCloseHandler c msg st)"
    using assms by (simp add: readyToCloseHandler_def Let_def)
  have d: "readyForCloseRegister st \<noteq> []
         \<and> removeAll (sender msg) (readyForCloseRegister st) = [] \<longrightarrow>
         servicesPreShutdownRoutineTimeout (readyToCloseHandler c msg st) = False
         \<and> TimerStop ServicesPreShutdownRoutineTimer
             \<in> set (trace (readyToCloseHandler c msg st))
         \<and> servicesList (readyToCloseHandler c msg st) =
             filter (\<lambda>s. GetName s \<in> set (regularClose_whitelist c)) (servicesList st)
         \<and> service_actions (trace (readyToCloseHandler c msg st)) =
             service_actions (trace st)
             @ concat (map (destroy_pass_actions c (regularClose_whitelist c)) (servicesList st))
         \<and> state (readyToCloseHandler c msg st) = Shutdown"
    using assms
    by (simp add: readyToCloseHandler_last CloseServices_eq service_actions_concat_destroy_events)
  from a b d readyToCloseHandler_twice [of c msg st] show ?thesis by blast
qed

text \<open>
  In the round where only \<open>svcB\<close> is pending, a repeated acknowledgment of \<open>svcA\<close>
  changes nothing, and the acknowledgment of \<open>svcB\<close> completes the round.
\<close>

theorem C4_witness:
  "servicesPreShutdownRoutineTimeout round_with_silent_svcB
   \<and> readyForCloseRegister round_with_silent_svcB = [''svcB'']
   \<and> readyForCloseRegister
       (readyToCloseHandler example_collaborators (ReadyToClose_from ''svcA'')
          round_with_silent_svcB) = [''svcB'']
   \<and> readyForCloseRegister
       (readyToCloseHandler example_collaborators (ReadyToClose_from ''svcB'')
          round_with_silent_svcB) = []
   \<and> servicesPreShutdownRoutineTimeout
       (readyToCloseHandler example_collaborators (ReadyToClose_from ''svcB'')
          round_with_silent_svcB) = False
   \<and> state
       (readyToCloseHandler example_collaborators (ReadyToClose_from ''svcB'')
          round_with_silent_svcB) = Shutdown"
proof -
  have h: "servicesPreShutdownRoutineTimeout round_with_silent_svcB"
    by (simp add: round_with_silent_svcB_eq)
  have r: "readyForCloseRegister round_with_silent_svcB = [''svcB'']"
    by (simp add: round_with_silent_svcB_eq)
  show ?thesis
    using h r
      C4_acknowledgment [OF h, of example_collaborators "ReadyToClose_from ''svcA''"]
      C4_acknowledgment [OF h, of example_collaborators "ReadyToClose_from ''svcB''"]
    by (simp add: ReadyToClose_from_def)
qed

section \<open>The lifecycle state\<close>

lemma set_State_state [simp]: "state (set_State s st) = s"
  by (simp add: set_State_def)

lemma RebootHandler_state [simp]: "state (RebootHandler target reason st) = target"
  by (cases reason) (simp_all add: RebootHandler_def Let_def)

lemma SystemManagerCmd_handler_state:
  "state (SystemManagerCmd_handler c msg type r u st) \<in> {state st, Reboot, RebootToUpdate}"
  by (cases type)
     (simp_all add: SystemManagerCmd_handler_def CloseSystemHandler_eq UpdateSystemHandler_eq
        RestoreSystemHandler_eq)

lemma readyToCloseHandler_state:
  "state (readyToCloseHandler c msg st) \<in> {state st, Shutdown}"
  by (simp add: readyToCloseHandler_def Let_def CloseServices_eq)

lemma handlePhoneModeRequest_state [simp]:
  "state (handlePhoneModeRequest c mode st) = state st"
  by (simp add: handlePhoneModeRequest_def Let_def)

lemma handleTetheringStateRequest_state [simp]:
  "state (handleTetheringStateRequest c t st) = state st"
  by (simp add: handleTetheringStateRequest_def Let_def split: prod.splits)

lemma Timer_handler_state:
  "state (Timer_handler c timer st) \<in> {state st, Shutdown}"
  by (cases timer)
     (simp_all add: Timer_handler_def CloseSystemHandler_eq CloseServices_eq
        CpuStatisticsTimerHandler_def Let_def)

lemma BatteryStateChange_handler_state [simp]:
  "state (BatteryStateChange_handler c st) = state st"
  by (cases "levelState (battery st)")
     (simp_all add: BatteryStateChange_handler_def batteryNormalLevelAction_def
        batteryShutdownLevelAction_def batteryCriticalLevelAction_def CloseSystemHandler_eq
        Let_def)

lemma CheckIfStartAllowed_handler_state [simp]:
  "state (CheckIfStartAllowed_handler c st) = state st"
  by (cases "levelState (battery st)") (simp_all add: CheckIfStartAllowed_handler_def Let_def)

lemma CellularCheckIfStartAllowed_handler_state [simp]:
  "state (CellularCheckIfStartAllowed_handler st) = state st"
  by (cases "levelState (battery st)") (simp_all add: CellularCheckIfStartAllowed_handler_def)

lemma Execute_state:
  "state (Execute c msg st) \<in> {state st, Shutdown, ShutdownReady, Reboot, RebootToUpdate}"
proof (cases "payload msg")
  case (SystemManagerCmd type r u)
  with SystemManagerCmd_handler_state [of c msg type r u st] show ?thesis
    by (auto simp: Execute_def)
next
  case ReadyToCloseMessage
  with readyToCloseHandler_state [of c msg st] show ?thesis
    by (auto simp: Execute_def)
next
  case (TimerMessage timer)
  with Timer_handler_state [of c timer st] show ?thesis
    by (auto simp: Execute_def)
qed (simp_all add: Execute_def BatteryStatusChange_handler_def Kbd_handler_def
      BatteryBrownout_handler_def CloseSystemHandler_eq CpuFrequency_handler_def
      enableTethering_def)

lemma Execute_not_Running: "state st \<noteq> Running \<Longrightarrow> state (Execute c msg st) \<noteq> Running"
  using Execute_state [of c msg st] by auto

lemma Run_running_loop_exit:
  "Run_running_loop c ticks st = Some (ticks', st') \<Longrightarrow> state st' \<noteq> Running"
proof (induction ticks arbitrary: st)
  case Nil
  then show ?case by (simp split: if_splits)
next
  case (Cons tick ticks)
  obtain b popped where t: "tick = (b, popped)" by (cases tick)
  show ?case
  proof (cases "state st = Running")
    case False
    with Cons.prems t show ?thesis by simp
  next
    case True
    with Cons.prems t Cons.IH show ?thesis
      by (cases popped) auto
  qed
qed

lemma Run_shutdown_loop_skip:
  "state st \<noteq> Shutdown \<Longrightarrow> Run_shutdown_loop c ticks st = Some (ticks, st)"
  by (cases ticks) auto

lemma Run_shutdown_loop_exit:
  "Run_shutdown_loop c ticks st = Some (ticks', st') \<Longrightarrow> state st \<noteq> Running \<Longrightarrow>
   state st' \<noteq> Shutdown \<and> state st' \<noteq> Running"
proof (induction ticks arbitrary: st)
  case Nil
  then show ?case by (simp split: if_splits)
next
  case (Cons tick ticks)
  obtain b popped where t: "tick = (b, popped)" by (cases tick)
  show ?case
  proof (cases "state st = Shutdown")
    case False
    with Cons.prems t show ?thesis by simp
  next
    case True
    show ?thesis
    proof (cases "batteryState b = Discharging")
      case d: True
      with True Cons.prems t show ?thesis by auto
    next
      case d: False
      show ?thesis
      proof (cases popped)
        case None
        with True d t Cons.prems
        have "Run_shutdown_loop c ticks (st\<lparr>battery := b\<rparr>) = Some (ticks', st')" by simp
        from Cons.IH [OF this] True show ?thesis by simp
      next
        case (Some msg)
        show ?thesis
        proof (cases "sender msg \<noteq> evt_manager c")
          case s: True
          with True d t Some Cons.prems
          have "Run_shutdown_loop c ticks
                  (emit (Log (LogIgnoredMsgOnShutdown (sender msg))) (st\<lparr>battery := b\<rparr>))
                = Some (ticks', st')" by simp
          from Cons.IH [OF this] True show ?thesis by simp
        next
          case s: False
          with True d t Some Cons.prems
          have "Run_shutdown_loop c ticks (Execute c msg (st\<lparr>battery := b\<rparr>))
                = Some (ticks', st')" by simp
          from Cons.IH [OF this] Execute_not_Running [of "st\<lparr>battery := b\<rparr>" c msg] True
          show ?thesis by simp
        qed
      qed
    qed
  qed
qed

lemma DestroySystemService_state [simp]:
  "state (snd (DestroySystemService c name st)) = state st"
  by (simp add: DestroySystemService_def RequestServiceClose_def Let_def split: option.splits)

lemma Run_power_off_Exited:
  "(fst (Run_power_off st) = Exited 1) =
     (state st \<noteq> ShutdownReady \<and> state st \<noteq> Reboot \<and> state st \<noteq> RebootToUpdate)"
  by (cases "state st") (simp_all add: Run_power_off_def)

lemma Execute_ReadyToClose_from [simp]:
  "Execute c (ReadyToClose_from n) st = readyToCloseHandler c (ReadyToClose_from n) st"
  by (simp add: Execute_def ReadyToClose_from_def)

lemma acknowledge_all_Shutdown:
  "(servicesPreShutdownRoutineTimeout st \<and> readyForCloseRegister st \<noteq> []
      \<and> set (readyForCloseRegister st) \<subseteq> set names)
    \<or> (state st = Shutdown \<and> readyForCloseRegister st = []) \<Longrightarrow>
   state (acknowledge_all c names st) = Shutdown"
proof (induction names arbitrary: st)
  case Nil
  then show ?case by auto
next
  case (Cons n names)
  let ?m = "ReadyToClose_from n"
  let ?st = "readyToCloseHandler c ?m st"
  have s: "sender ?m = n" by (simp add: ReadyToClose_from_def)
  have "(servicesPreShutdownRoutineTimeout ?st \<and> readyForCloseRegister ?st \<noteq> []
      \<and> set (readyForCloseRegister ?st) \<subseteq> set names)
    \<or> (state ?st = Shutdown \<and> readyForCloseRegister ?st = [])"
  proof (cases "readyForCloseRegister st = []")
    case True
    with Cons.prems show ?thesis by (simp add: readyToCloseHandler_idle)
  next
    case False
    with Cons.prems have a: "servicesPreShutdownRoutineTimeout st"
      and sub: "set (readyForCloseRegister st) \<subseteq> set (n # names)" by auto
    show ?thesis
    proof (cases "removeAll n (readyForCloseRegister st) = []")
      case True
      with a False s show ?thesis
        by (simp add: readyToCloseHandler_last CloseServices_eq)
    next
      case r: False
      from sub have "set (removeAll n (readyForCloseRegister st)) \<subseteq> set names" by auto
      with a False r s show ?thesis
        by (simp add: readyToCloseHandler_more)
    qed
  qed
  from Cons.IH [OF this] show ?case by simp
qed

subsection \<open>Transitions\<close>

text \<open>
  C5. From \<open>Running\<close>, a close command opens a close round (the state is still \<open>Running\<close>
  and the watchdog is armed), and the completion of the round, by the watchdog or by the
  acknowledgments of all pending names, sets \<open>Shutdown\<close>. In \<open>Shutdown\<close>, a battery status
  change observed with a discharging battery and an empty register sets \<open>ShutdownReady\<close>,
  and so does the second loop of \<open>Run\<close> on a discharging battery. In \<open>Shutdown\<close>, a
  keyboard message from the event manager sets \<open>Reboot\<close>, in the handler and in the second
  loop of \<open>Run\<close> while the battery is not discharging. The handler does not look at the
  key, so this holds for the red key as for any other.
\<close>

theorem C5_lifecycle_transitions:
  assumes "state st = Running" and "state sd = Shutdown"
  shows "state (Execute c (message_from n (SystemManagerCmd CloseSystem r u)) st) = Running
    \<and> servicesPreShutdownRoutineTimeout
        (Execute c (message_from n (SystemManagerCmd CloseSystem r u)) st)
    \<and> state (Execute c (message_from n' (TimerMessage ServicesPreShutdownRoutineTimer))
               (Execute c (message_from n (SystemManagerCmd CloseSystem r u)) st)) = Shutdown
    \<and> (servicesList st \<noteq> []
         \<and> set (readyForCloseRegister st) \<union> GetName ` set (servicesList st) \<subseteq> set names \<longrightarrow>
         state (acknowledge_all c names
                  (Execute c (message_from n (SystemManagerCmd CloseSystem r u)) st)) = Shutdown)
    \<and> (batteryState (battery sd) = Discharging \<and> readyForCloseRegister sd = [] \<longrightarrow>
         state (Execute c (message_from n BatteryStatusChangeMessage) sd) = ShutdownReady)
    \<and> (batteryState b = Discharging \<and> readyForCloseRegister sd = [] \<longrightarrow>
         map_option (state \<circ> snd) (Run_shutdown_loop c ((b, popped) # ticks) sd)
           = Some ShutdownReady)
    \<and> state (Execute c (message_from (evt_manager c) (KbdMessage key)) sd) = Reboot
    \<and> (batteryState b \<noteq> Discharging \<longrightarrow>
         map_option (state \<circ> snd)
           (Run_shutdown_loop c
              ((b, Some (message_from (evt_manager c) (KbdMessage key))) # ticks) sd)
           = Some Reboot)"
proof -
  let ?close = "message_from n (SystemManagerCmd CloseSystem r u)"
  have e: "Execute c ?close st = CloseSystemHandler r st"
    by (simp add: Execute_def message_from_def SystemManagerCmd_handler_def)
  have p1: "state (Execute c ?close st) = Running"
    using assms(1) by (simp add: e CloseSystemHandler_eq)
  have p2: "servicesPreShutdownRoutineTimeout (Execute c ?close st)"
    by (simp add: e CloseSystemHandler_eq)
  have p3: "state (Execute c (message_from n' (TimerMessage ServicesPreShutdownRoutineTimer))
               (Execute c ?close st)) = Shutdown"
    unfolding e
    by (simp add: Execute_def message_from_def Timer_handler_def CloseSystemHandler_eq
          CloseServices_eq)
  have p4: "servicesList st \<noteq> []
         \<and> set (readyForCloseRegister st) \<union> GetName ` set (servicesList st) \<subseteq> set names \<longrightarrow>
         state (acknowledge_all c names (Execute c ?close st)) = Shutdown"
  proof
    assume h: "servicesList st \<noteq> []
         \<and> set (readyForCloseRegister st) \<union> GetName ` set (servicesList st) \<subseteq> set names"
    then have "servicesPreShutdownRoutineTimeout (CloseSystemHandler r st)
      \<and> readyForCloseRegister (CloseSystemHandler r st) \<noteq> []
      \<and> set (readyForCloseRegister (CloseSystemHandler r st)) \<subseteq> set names"
      by (simp add: CloseSystemHandler_eq)
    then show "state (acknowledge_all c names (Execute c ?close st)) = Shutdown"
      unfolding e by (intro acknowledge_all_Shutdown disjI1)
  qed
  have p5: "batteryState (battery sd) = Discharging \<and> readyForCloseRegister sd = [] \<longrightarrow>
         state (Execute c (message_from n BatteryStatusChangeMessage) sd) = ShutdownReady"
    using assms(2) by (simp add: Execute_def message_from_def BatteryStatusChange_handler_def)
  have p6: "batteryState b = Discharging \<and> readyForCloseRegister sd = [] \<longrightarrow>
         map_option (state \<circ> snd) (Run_shutdown_loop c ((b, popped) # ticks) sd)
           = Some ShutdownReady"
    using assms(2) by simp
  have k: "Execute c (message_from (evt_manager c) (KbdMessage key)) s = Kbd_handler s" for s
    by (simp add: Execute_def message_from_def)
  have p7: "state (Execute c (message_from (evt_manager c) (KbdMessage key)) sd) = Reboot"
    using assms(2) by (simp add: k Kbd_handler_def)
  have p8: "batteryState b \<noteq> Discharging \<longrightarrow>
         map_option (state \<circ> snd)
           (Run_shutdown_loop c
              ((b, Some (message_from (evt_manager c) (KbdMessage key))) # ticks) sd)
           = Some Reboot"
  proof
    assume d: "batteryState b \<noteq> Discharging"
    have s: "sender (message_from (evt_manager c) (KbdMessage key)) = evt_manager c"
      by (simp add: message_from_def)
    have "state (Kbd_handler (sd\<lparr>battery := b\<rparr>)) = Reboot"
      using assms(2) by (simp add: Kbd_handler_def)
    then have "Run_shutdown_loop c ticks (Kbd_handler (sd\<lparr>battery := b\<rparr>))
               = Some (ticks, Kbd_handler (sd\<lparr>battery := b\<rparr>))"
      by (simp add: Run_shutdown_loop_skip)
    with d s assms(2) \<open>state (Kbd_handler (sd\<lparr>battery := b\<rparr>)) = Reboot\<close>
    show "map_option (state \<circ> snd)
           (Run_shutdown_loop c
              ((b, Some (message_from (evt_manager c) (KbdMessage key))) # ticks) sd)
           = Some Reboot"
      by (simp add: k)
  qed
  from p1 p2 p3 p4 p5 p6 p7 p8 show ?thesis by blast
qed

text \<open>
  A close command on three services, acknowledged by all of them; a discharging battery
  and a key press in \<open>Shutdown\<close>.
\<close>

theorem C5_witness:
  "state (manager_with example_services) = Running
   \<and> state manager_in_shutdown = Shutdown
   \<and> state (acknowledge_all example_collaborators [''svcA'', ''EventManager'', ''svcB'']
        (Execute example_collaborators
           (message_from ''EventManager'' (SystemManagerCmd CloseSystem RegularPowerDown 0))
           (manager_with example_services))) = Shutdown
   \<and> state (Execute example_collaborators (message_from ''EventManager'' BatteryStatusChangeMessage)
        manager_in_shutdown) = ShutdownReady
   \<and> map_option (state \<circ> snd)
        (Run_shutdown_loop example_collaborators
           [(\<lparr>levelState = LevelNormal, batteryState = Charging\<rparr>,
             Some (message_from ''EventManager'' (KbdMessage 0)))]
           manager_in_shutdown) = Some Reboot"
proof -
  have h1: "state (manager_with example_services) = Running"
    by (simp add: manager_with_def initial_manager_def)
  have h2: "state manager_in_shutdown = Shutdown"
    by (simp add: manager_in_shutdown_def)
  have e: "evt_manager example_collaborators = ''EventManager''"
    by (simp add: example_collaborators_def)
  show ?thesis
    using h1 h2
      C5_lifecycle_transitions [OF h1 h2, where c = example_collaborators
        and n = "''EventManager''" and r = RegularPowerDown and u = 0
        and n' = "''SystemManager''" and names = "[''svcA'', ''EventManager'', ''svcB'']"
        and b = "\<lparr>levelState = LevelNormal, batteryState = Charging\<rparr>"
        and popped = None and ticks = "[]" and key = 0]
    by (simp add: e manager_with_def initial_manager_def manager_in_shutdown_def
          example_services_def svc_def)
qed

subsection \<open>The end of the main loop\<close>

text \<open>
  C7. After the two loops of \<open>Run\<close>, the switch ends the process with \<open>exit(1)\<close> exactly when
  the state is none of \<open>ShutdownReady\<close>, \<open>Reboot\<close> and \<open>RebootToUpdate\<close>; and whenever
  \<open>Run\<close> returns, from any state and on any input, it has called one of the three power
  manager operations and the state is one of the three, so the abort branch is not taken.
\<close>

theorem C7_abort_unreachable:
  assumes "Run c ticks st0 = Some (t, st')"
  shows "((fst (Run_power_off st) = Exited 1) =
           (state st \<noteq> ShutdownReady \<and> state st \<noteq> Reboot \<and> state st \<noteq> RebootToUpdate))
    \<and> (t = Rebooted \<or> t = PoweredOff \<or> t = RebootedToUpdate (updateReason st'))
    \<and> (state st' = ShutdownReady \<or> state st' = Reboot \<or> state st' = RebootToUpdate)"
proof -
  from assms obtain ticks1 st1 where r1: "Run_running_loop c ticks st0 = Some (ticks1, st1)"
    by (auto simp: Run_def split: option.splits)
  with assms obtain ticks2 st2 where r2: "Run_shutdown_loop c ticks1 st1 = Some (ticks2, st2)"
    by (auto simp: Run_def split: option.splits)
  define st5 where
    "st5 = emit EndScheduler
             (emit CloseServiceSelf (snd (DestroySystemService c (evt_manager c) st2)))"
  from assms r1 r2 have e: "(t, st') = Run_power_off st5"
    by (simp add: Run_def Let_def st5_def)
  have n1: "state st1 \<noteq> Running" using r1 by (rule Run_running_loop_exit)
  from Run_shutdown_loop_exit [OF r2 n1]
  have n2: "state st5 \<noteq> Shutdown" "state st5 \<noteq> Running"
    by (simp_all add: st5_def)
  from n2 e have "t = Rebooted \<or> t = PoweredOff \<or> t = RebootedToUpdate (updateReason st')"
    by (cases "state st5") (auto simp: Run_power_off_def)
  moreover from n2 e
  have "state st' = ShutdownReady \<or> state st' = Reboot \<or> state st' = RebootToUpdate"
    by (cases "state st5") (auto simp: Run_power_off_def)
  ultimately show ?thesis using Run_power_off_Exited [of st] by blast
qed


text \<open>A run that returns: regular close, watchdog, discharging battery, power off.\<close>

theorem C7_witness:
  "Run example_collaborators example_ticks (manager_with example_services)
     = Some (PoweredOff, example_final_manager)
   \<and> state example_final_manager = ShutdownReady"
proof -
  have h: "Run example_collaborators example_ticks (manager_with example_services)
     = Some (PoweredOff, example_final_manager)"
    by code_simp
  show ?thesis
    using h C7_abort_unreachable [OF h]
    by (simp add: example_final_manager_def)
qed

subsection \<open>Reboot requests\<close>

text \<open>
  C6 does not hold of the code. \<open>RebootHandler\<close> starts the close round and sets the
  target state in the same call: when it returns the state is already \<open>Reboot\<close> or
  \<open>RebootToUpdate\<close>, while every registered service is still registered and pending and
  none has been asked to exit. The first loop of \<open>Run\<close> then ends, so neither an
  acknowledgment nor the watchdog is handled any more: in the run below the process
  reboots with \<open>svcA\<close> and \<open>svcB\<close> still registered, and only the event manager has
  received the close request.
\<close>

theorem C6_reboot_sets_state_before_round_completes:
  "state (RebootHandler target reason st) = target
   \<and> servicesPreShutdownRoutineTimeout (RebootHandler target reason st)
   \<and> servicesList (RebootHandler target reason st) = rev (servicesList st)
   \<and> readyForCloseRegister (RebootHandler target reason st) =
       readyForCloseRegister st @ map GetName (rev (servicesList st))
   \<and> service_actions (trace (RebootHandler target reason st)) = service_actions (trace st)
   \<and> map_option (\<lambda>(t, s). (t, map GetName (servicesList s), readyForCloseRegister s,
                              service_actions (trace s)))
        (Run example_collaborators reboot_ticks (manager_with example_services))
      = Some (Rebooted, [''svcB'', ''svcA''], [''svcB'', ''svcA'', ''EventManager''],
              [BusSendUnicastSyncExit ''EventManager''])"
proof -
  have a: "service_actions (map (\<lambda>s. BusSendUnicast m (f s)) xs) = []" for m f and xs :: "Service list"
    by (induction xs) simp_all
  have p: "state (RebootHandler target reason st) = target
   \<and> servicesPreShutdownRoutineTimeout (RebootHandler target reason st)
   \<and> servicesList (RebootHandler target reason st) = rev (servicesList st)
   \<and> readyForCloseRegister (RebootHandler target reason st) =
       readyForCloseRegister st @ map GetName (rev (servicesList st))
   \<and> service_actions (trace (RebootHandler target reason st)) = service_actions (trace st)"
    by (cases reason) (simp_all add: RebootHandler_def Let_def set_State_def CloseSystemHandler_eq a)
  have r: "map_option (\<lambda>(t, s). (t, map GetName (servicesList s), readyForCloseRegister s,
                              service_actions (trace s)))
        (Run example_collaborators reboot_ticks (manager_with example_services))
      = Some (Rebooted, [''svcB'', ''svcA''], [''svcB'', ''svcA'', ''EventManager''],
              [BusSendUnicastSyncExit ''EventManager''])"
    by code_simp
  from p r show ?thesis by blast
qed

section \<open>Battery and tethering policy\<close>

lemma close_invocations_simps [simp]:
  "close_invocations [] = 0"
  "close_invocations (e # tr) =
     (if e = Log LogInvokingClosingProcedure then 1 else 0) + close_invocations tr"
  "close_invocations (xs @ ys) = close_invocations xs + close_invocations ys"
  by (simp_all add: close_invocations_def)

lemma close_invocations_broadcast [simp]:
  "close_invocations (map (\<lambda>s. BusSendUnicast m (f s)) xs) = 0"
  by (induction xs) simp_all

subsection \<open>Battery level Shutdown\<close>

text \<open>
  C8, as the specification states it, fails: the handler keeps no record of the previous
  level. Two battery state change messages handled while the level is \<open>Shutdown\<close> (the
  manager is still \<open>Running\<close> after the first) invoke the closing procedure twice, and
  \<open>svcA\<close> is notified twice.
\<close>

theorem C8_counterexample:
  "state (Execute example_collaborators (message_from ''EventManager'' BatteryStateChangeMessage)
            low_battery_manager) = Running
   \<and> levelState
     (battery (Execute example_collaborators (message_from ''EventManager'' BatteryStateChangeMessage)
                 low_battery_manager)) = LevelShutdown
   \<and> close_invocations
        (trace (Execute example_collaborators (message_from ''EventManager'' BatteryStateChangeMessage)
                  low_battery_manager)) = 1
   \<and> close_invocations
        (trace (Execute example_collaborators (message_from ''EventManager'' BatteryStateChangeMessage)
                 (Execute example_collaborators (message_from ''EventManager'' BatteryStateChangeMessage)
                    low_battery_manager))) = 2
   \<and> sent_messages
        (trace (Execute example_collaborators (message_from ''EventManager'' BatteryStateChangeMessage)
                 (Execute example_collaborators (message_from ''EventManager'' BatteryStateChangeMessage)
                    low_battery_manager))) =
       [(ServiceCloseReasonMessage LowBattery, ''svcA''),
        (ServiceCloseReasonMessage LowBattery, ''svcA'')]"
  by (simp add: Execute_def message_from_def BatteryStateChange_handler_def
        batteryShutdownLevelAction_def CloseSystemHandler_eq low_battery_manager_def
        low_battery_def manager_with_def initial_manager_def svc_def)

text \<open>
  C8, amended. Every battery state change message handled while the battery level is
  \<open>Shutdown\<close> invokes the closing procedure once, with reason \<open>LowBattery\<close>, whatever the
  level was before.
\<close>

theorem C8_every_shutdown_level_message_closes:
  assumes "levelState (battery st) = LevelShutdown"
  shows "Execute c (message_from n BatteryStateChangeMessage) st =
           CloseSystemHandler LowBattery (emit (Log LogBatteryTooLow) st)
    \<and> close_invocations (trace (Execute c (message_from n BatteryStateChangeMessage) st)) =
        close_invocations (trace st) + 1
    \<and> sent_messages (trace (Execute c (message_from n BatteryStateChangeMessage) st)) =
        sent_messages (trace st)
        @ map (\<lambda>s. (ServiceCloseReasonMessage LowBattery, GetName s)) (rev (servicesList st))"
proof -
  have e: "Execute c (message_from n BatteryStateChangeMessage) st =
           CloseSystemHandler LowBattery (emit (Log LogBatteryTooLow) st)"
    using assms
    by (simp add: Execute_def message_from_def BatteryStateChange_handler_def
          batteryShutdownLevelAction_def)
  show ?thesis
    unfolding e by (simp add: CloseSystemHandler_eq sent_messages_broadcast)
qed

theorem C8_witness:
  "levelState (battery low_battery_manager) = LevelShutdown
   \<and> close_invocations
        (trace (Execute example_collaborators (message_from ''EventManager'' BatteryStateChangeMessage)
                  low_battery_manager)) = 1"
proof -
  have h: "levelState (battery low_battery_manager) = LevelShutdown"
    by (simp add: low_battery_manager_def low_battery_def)
  have z: "close_invocations (trace low_battery_manager) = 0"
    by (simp add: low_battery_manager_def manager_with_def initial_manager_def)
  from h z
    C8_every_shutdown_level_message_closes
      [OF h, of example_collaborators "''EventManager''", THEN conjunct2, THEN conjunct1]
  show ?thesis by simp
qed

subsection \<open>Tethering state requests\<close>

text \<open>
  C9, as the specification states it, fails twice. Below the normal battery level the
  request is refused with a log line only and no message is sent to anybody; and at the
  normal level a request to turn tethering off that changes nothing (tethering is off
  already) sends the abort of the tethering question to the application manager, not the
  forced phone-mode refresh.
\<close>

theorem C9_counterexample:
  "levelState (battery (initial_manager\<lparr>battery := critical_battery\<rparr>)) \<noteq> LevelNormal
   \<and> sent_messages
       (trace (Execute example_collaborators
                 (message_from ''ServiceCellular'' (TetheringStateRequest TetheringOn))
                 (initial_manager\<lparr>battery := critical_battery\<rparr>))) = []
   \<and> levelState (battery initial_manager) = LevelNormal
   \<and> sent_messages
       (trace (Execute example_collaborators
                 (message_from ''ServiceCellular'' (TetheringStateRequest TetheringOff))
                 initial_manager)) = [(TetheringQuestionAbort, ''ApplicationManager'')]"
  by (simp add: Execute_def message_from_def handleTetheringStateRequest_def Let_def
        initial_manager_def critical_battery_def example_collaborators_def)

text \<open>
  C9, amended. Below the normal battery level a tethering state request is refused: two
  log lines, no message, the phone mode subject untouched. At the normal level a request
  to turn tethering on sends the confirmation question to the application manager and
  leaves the subject untouched; a request to turn it off is applied to the subject at
  once, and sends the forced phone-mode refresh to the event manager when the subject
  reports a change, and the abort of the tethering question to the application manager
  when it does not.
\<close>

theorem C9_tethering_state_request:
  "(levelState (battery st) \<noteq> LevelNormal \<longrightarrow>
      trace (handleTetheringStateRequest c requestedState st) =
        trace st @ [Log LogTetheringStateChangeRequested, Log LogTetheringRefusedBatteryTooLow]
      \<and> sent_messages (trace (handleTetheringStateRequest c requestedState st)) =
          sent_messages (trace st)
      \<and> phoneModeSubject (handleTetheringStateRequest c requestedState st) =
          phoneModeSubject st)
   \<and> (levelState (battery st) = LevelNormal \<longrightarrow>
        sent_messages (trace (handleTetheringStateRequest c TetheringOn st)) =
          sent_messages (trace st) @ [(TetheringQuestionRequest, appmgr c)]
        \<and> phoneModeSubject (handleTetheringStateRequest c TetheringOn st) = phoneModeSubject st
        \<and> phoneModeSubject (handleTetheringStateRequest c TetheringOff st) =
            snd (setTetheringMode c TetheringOff (phoneModeSubject st))
        \<and> sent_messages (trace (handleTetheringStateRequest c TetheringOff st)) =
            sent_messages (trace st)
            @ [if fst (setTetheringMode c TetheringOff (phoneModeSubject st))
               then (RequestPhoneModeForceUpdate, evt_manager c)
               else (TetheringQuestionAbort, appmgr c)])"
  by (cases requestedState)
     (simp_all add: handleTetheringStateRequest_def Let_def split: prod.splits)

theorem C9_witness:
  "levelState (battery (initial_manager\<lparr>battery := critical_battery\<rparr>)) \<noteq> LevelNormal
   \<and> trace (handleTetheringStateRequest example_collaborators TetheringOn
              (initial_manager\<lparr>battery := critical_battery\<rparr>)) =
       [Log LogTetheringStateChangeRequested, Log LogTetheringRefusedBatteryTooLow]
   \<and> levelState (battery (initial_manager\<lparr>phoneModeSubject := True\<rparr>)) = LevelNormal
   \<and> sent_messages (trace (handleTetheringStateRequest example_collaborators TetheringOn
                             (initial_manager\<lparr>phoneModeSubject := True\<rparr>))) =
       [(TetheringQuestionRequest, ''ApplicationManager'')]
   \<and> sent_messages (trace (handleTetheringStateRequest example_collaborators TetheringOff
                             (initial_manager\<lparr>phoneModeSubject := True\<rparr>))) =
       [(RequestPhoneModeForceUpdate, ''EventManager'')]
   \<and> phoneModeSubject (handleTetheringStateRequest example_collaborators TetheringOff
                          (initial_manager\<lparr>phoneModeSubject := True\<rparr>)) = False"
proof -
  have h1: "levelState (battery (initial_manager\<lparr>battery := critical_battery\<rparr>)) \<noteq> LevelNormal"
    by (simp add: critical_battery_def)
  have h2: "levelState (battery (initial_manager\<lparr>phoneModeSubject := True\<rparr>)) = LevelNormal"
    by (simp add: initial_manager_def)
  show ?thesis
    using h1 h2
      C9_tethering_state_request [of "initial_manager\<lparr>battery := critical_battery\<rparr>"
        example_collaborators TetheringOn]
      C9_tethering_state_request [of "initial_manager\<lparr>phoneModeSubject := True\<rparr>"
        example_collaborators TetheringOn]
    by (simp add: initial_manager_def example_collaborators_def)
qed

end
